theory Spec2Isabelle
  imports Complex_Main "HOL-Library.AList"
begin

section \<open>Python primitives used by the bot\<close>

text \<open>
  Texts are lists of characters; a character stands for a code point below 256.
  The only exception the handlers of \<^verbatim>\<open>main.py\<close> can raise on their own is the
  \<^verbatim>\<open>AttributeError\<close> of an attribute access on \<^verbatim>\<open>None\<close>
  (\<^verbatim>\<open>update.message.reply_text\<close> on an update without a message, and the like).
  The \<^verbatim>\<open>ValueError\<close> of \<^verbatim>\<open>int(text)\<close> is caught where it is raised, so the
  parser returns an option.
\<close>

datatype py_error = AttributeError

abbreviation NL :: string where
  "NL \<equiv> [CHR 0x0A]"

text \<open>\<^verbatim>\<open>str.isspace\<close> on the code points below 256.\<close>

definition isspace :: "char \<Rightarrow> bool" where
  "isspace c = ((of_char c :: nat) \<in> {9, 10, 11, 12, 13, 28, 29, 30, 31, 32, 133, 160})"

text \<open>\<^verbatim>\<open>s.strip()\<close>: white space removed at both ends.\<close>

definition strip :: "string \<Rightarrow> string" where
  "strip s = rev (dropWhile isspace (rev (dropWhile isspace s)))"

text \<open>\<^verbatim>\<open>sep.join(parts)\<close>.\<close>

fun join :: "string \<Rightarrow> string list \<Rightarrow> string" where
  "join sep [] = []"
| "join sep [x] = x"
| "join sep (x # y # ys) = x @ sep @ join sep (y # ys)"

text \<open>\<^verbatim>\<open>s.endswith(suffix)\<close>.\<close>

definition endswith :: "string \<Rightarrow> string \<Rightarrow> bool" where
  "endswith s suffix =
     (length suffix \<le> length s \<and> drop (length s - length suffix) s = suffix)"

text \<open>\<^verbatim>\<open>str(n)\<close> for an integer, as the f-strings of the source format it.\<close>

definition digit_char :: "nat \<Rightarrow> char" where
  "digit_char d = char_of (48 + d)"

function str_nat :: "nat \<Rightarrow> string" where
  "str_nat n = (if n < 10 then [digit_char n] else str_nat (n div 10) @ [digit_char (n mod 10)])"
  by pat_completeness auto
termination
  by (relation "measure (\<lambda>n. n)") auto

declare str_nat.simps [simp del]

definition str_int :: "int \<Rightarrow> string" where
  "str_int i = (if i < 0 then CHR ''-'' # str_nat (nat (- i)) else str_nat (nat i))"

text \<open>\<^verbatim>\<open>str(x)\<close> of an optional text inside an f-string: \<^verbatim>\<open>None\<close> prints as its name.\<close>

definition str_opt :: "string option \<Rightarrow> string" where
  "str_opt x = (case x of None \<Rightarrow> ''None'' | Some s \<Rightarrow> s)"

text \<open>
  \<^verbatim>\<open>int(text)\<close> in base 10: white space stripped, an optional sign, then decimal digits
  in which single underscores may separate digits. \<open>None\<close> is the \<^verbatim>\<open>ValueError\<close>.
  The interpreter's bound on the length of a digit run (beyond it \<^verbatim>\<open>int\<close> raises
  \<^verbatim>\<open>ValueError\<close> as well) is left out: such a run is a number far above 120, and
  \<^verbatim>\<open>register_age\<close> asks again for either reason.
\<close>

definition isdigit :: "char \<Rightarrow> bool" where
  "isdigit c = (48 \<le> (of_char c :: nat) \<and> (of_char c :: nat) \<le> 57)"

definition digit_val :: "char \<Rightarrow> int" where
  "digit_val c = int (of_char c) - 48"

fun digits_ok :: "string \<Rightarrow> bool" where
  "digits_ok [] = False"
| "digits_ok [c] = isdigit c"
| "digits_ok (c # d # cs) =
     (if isdigit c then (if d = CHR ''_'' then digits_ok cs else digits_ok (d # cs)) else False)"

definition digits_value :: "string \<Rightarrow> int" where
  "digits_value ds = foldl (\<lambda>acc c. 10 * acc + digit_val c) 0 (filter (\<lambda>c. c \<noteq> CHR ''_'') ds)"

definition py_int :: "string \<Rightarrow> int option" where
  "py_int s =
     (let t = strip s;
          neg = (t \<noteq> [] \<and> hd t = CHR ''-'');
          body = (if t \<noteq> [] \<and> (hd t = CHR ''-'' \<or> hd t = CHR ''+'') then tl t else t)
      in if digits_ok body
         then Some (if neg then - digits_value body else digits_value body)
         else None)"

text \<open>\<^verbatim>\<open>xs[i:]\<close>: a negative start counts from the end, and every start is clamped.\<close>

definition py_slice_from :: "'a list \<Rightarrow> int \<Rightarrow> 'a list" where
  "py_slice_from xs i =
     (let n = int (length xs);
          start = (if i < 0 then max (n + i) 0 else min i n)
      in drop (nat start) xs)"

section \<open>Data model and store\<close>

record UserProfile =
  user_id :: int
  name :: "string option"
  age :: "int option"
  created_at :: real

text \<open>The fields of a feedback entry carry the prefix \<open>fb\<close>.\<close>

record FeedbackEntry =
  fb_user_id :: int
  fb_username :: "string option"
  fb_text :: string
  fb_created_at :: real

text \<open>
  \<^verbatim>\<open>profiles\<close> is a Python dict: an association list in insertion order with one entry
  per key. \<^verbatim>\<open>feedback\<close> is a list, \<^verbatim>\<open>blocked_users\<close> a set.
\<close>

record InMemoryStore =
  profiles :: "(int \<times> UserProfile) list"
  feedback :: "FeedbackEntry list"
  blocked_users :: "int set"

definition empty_store :: InMemoryStore where
  "empty_store = \<lparr>profiles = [], feedback = [], blocked_users = {}\<rparr>"

text \<open>
  What the handlers take from outside \<^verbatim>\<open>main.py\<close>: the allow-list
  \<^verbatim>\<open>Config.AUTH_USERS\<close> (in the order in which it is iterated), the clock (\<^verbatim>\<open>time.time()\<close> at the call), the rendering of a
  time stamp (\<^verbatim>\<open>time.strftime("%Y-%m-%d %H:%M:%S", time.localtime(t))\<close>),
  \<^verbatim>\<open>random.randint\<close>, and whether \<^verbatim>\<open>context.bot.send_message(chat_id, text)\<close> raises.
\<close>

record env =
  AUTH_USERS :: "int list"
  now :: real
  strftime :: "real \<Rightarrow> string"
  randint :: "int \<Rightarrow> int \<Rightarrow> int"
  send_raises :: "int \<Rightarrow> string \<Rightarrow> bool"

definition get_or_create_profile :: "env \<Rightarrow> int \<Rightarrow> InMemoryStore \<Rightarrow> UserProfile \<times> InMemoryStore" where
  "get_or_create_profile e u s =
     (case map_of (profiles s) u of
        Some p \<Rightarrow> (p, s)
      | None \<Rightarrow>
          (let p = \<lparr>user_id = u, name = None, age = None, created_at = now e\<rparr>
           in (p, s\<lparr>profiles := profiles s @ [(u, p)]\<rparr>)))"

definition update_profile_name :: "env \<Rightarrow> int \<Rightarrow> string \<Rightarrow> InMemoryStore \<Rightarrow> InMemoryStore" where
  "update_profile_name e u n s =
     (case get_or_create_profile e u s of
        (profile, s1) \<Rightarrow> s1\<lparr>profiles := AList.update u (profile\<lparr>name := Some n\<rparr>) (profiles s1)\<rparr>)"

definition update_profile_age :: "env \<Rightarrow> int \<Rightarrow> int \<Rightarrow> InMemoryStore \<Rightarrow> InMemoryStore" where
  "update_profile_age e u a s =
     (case get_or_create_profile e u s of
        (profile, s1) \<Rightarrow> s1\<lparr>profiles := AList.update u (profile\<lparr>age := Some a\<rparr>) (profiles s1)\<rparr>)"

definition add_feedback :: "FeedbackEntry \<Rightarrow> InMemoryStore \<Rightarrow> InMemoryStore" where
  "add_feedback entry s = s\<lparr>feedback := feedback s @ [entry]\<rparr>"

text \<open>The argument is \<open>None\<close> when the caller leaves \<^verbatim>\<open>limit\<close> out (default 10).\<close>

definition get_recent_feedback :: "int option \<Rightarrow> InMemoryStore \<Rightarrow> FeedbackEntry list" where
  "get_recent_feedback limit_arg s =
     (let limit = (case limit_arg of None \<Rightarrow> 10 | Some k \<Rightarrow> k)
      in py_slice_from (feedback s) (- limit))"

definition block_user :: "int \<Rightarrow> InMemoryStore \<Rightarrow> InMemoryStore" where
  "block_user u s = s\<lparr>blocked_users := insert u (blocked_users s)\<rparr>"

definition unblock_user :: "int \<Rightarrow> InMemoryStore \<Rightarrow> InMemoryStore" where
  "unblock_user u s = s\<lparr>blocked_users := blocked_users s - {u}\<rparr>"

definition is_blocked :: "int \<Rightarrow> InMemoryStore \<Rightarrow> bool" where
  "is_blocked u s = (u \<in> blocked_users s)"

definition is_authorized :: "env \<Rightarrow> int option \<Rightarrow> bool" where
  "is_authorized e u =
     (case u of None \<Rightarrow> False | Some i \<Rightarrow> i \<in> set (AUTH_USERS e))"

definition format_profile :: "env \<Rightarrow> UserProfile \<Rightarrow> string" where
  "format_profile e profile =
     join NL
       ([''ID: '' @ str_int (user_id profile)]
        @ (case name profile of
             None \<Rightarrow> []
           | Some n \<Rightarrow> if n \<noteq> [] then [''Name: '' @ n] else [])
        @ (case age profile of
             None \<Rightarrow> []
           | Some a \<Rightarrow> [''Age: '' @ str_int a])
        @ [''Registered: '' @ strftime e (created_at profile)])"

section \<open>Updates, effects and the state a handler sees\<close>

text \<open>
  The fields of the framework's objects that the handlers read. \<^verbatim>\<open>args\<close> is
  \<^verbatim>\<open>context.args\<close>, which the framework computes from the update. \<open>uid\<close> is
  \<^verbatim>\<open>user.id\<close> and \<open>msg_text\<close> is \<^verbatim>\<open>message.text\<close>; an update that reaches a
  handler through a text or command filter has a text.
\<close>

record User =
  uid :: int
  full_name :: string
  username :: "string option"

record Message =
  msg_text :: string

record CallbackQuery =
  from_user :: "User option"
  data :: "string option"

record Update =
  effective_user :: "User option"
  effective_chat :: "int option"
  message :: "Message option"
  callback_query :: "CallbackQuery option"
  args :: "string list"

text \<open>An inline keyboard: rows of buttons, each a label and its callback data.\<close>

type_synonym keyboard = "(string \<times> string) list list"

text \<open>
  What a handler does to the outside, in order. \<open>SendMessage\<close> is a call of
  \<^verbatim>\<open>context.bot.send_message\<close> that returned, \<open>SendFailed\<close> one that raised.
  Replies to the update (\<^verbatim>\<open>reply_text\<close>, \<^verbatim>\<open>query.answer\<close>,
  \<^verbatim>\<open>query.edit_message_text\<close>) are taken to return.
\<close>

datatype effect =
    ReplyText string "keyboard option"
  | AnswerQuery
  | EditMessageText string "keyboard option"
  | SendMessage int string
  | SendFailed int string
  | Sleep
  | LogWarning string int
  | LogError string

text \<open>
  \<^verbatim>\<open>context.user_data\<close> is the dict of the user of the update; a value is a text or
  \<^verbatim>\<open>None\<close>. A handler runs on the global store, that dict and the effects so far.
\<close>

type_synonym user_data = "string \<rightharpoonup> string option"

record World =
  store :: InMemoryStore
  user_data :: user_data
  outbox :: "effect list"

text \<open>A handler returns a conversation state, or nothing, or it raises.\<close>

datatype outcome = Returned "int option" | Raised py_error

type_synonym handler_result = "outcome \<times> World"

definition REGISTER_NAME :: int where "REGISTER_NAME = 0"
definition REGISTER_AGE :: int where "REGISTER_AGE = 1"
definition REGISTER_DONE :: int where "REGISTER_DONE = 2"
definition FEEDBACK_TEXT :: int where "FEEDBACK_TEXT = 3"
definition FEEDBACK_CONFIRM :: int where "FEEDBACK_CONFIRM = 4"
definition BROADCAST_TEXT :: int where "BROADCAST_TEXT = 5"
definition BROADCAST_CONFIRM :: int where "BROADCAST_CONFIRM = 6"
definition UTILITY_MENU :: int where "UTILITY_MENU = 7"
definition UTILITY_WAIT_INPUT :: int where "UTILITY_WAIT_INPUT = 8"

text \<open>\<^verbatim>\<open>ConversationHandler.END\<close> of the framework.\<close>

definition END :: int where "END = - 1"

definition emit :: "effect \<Rightarrow> World \<Rightarrow> World" where
  "emit x w = w\<lparr>outbox := outbox w @ [x]\<rparr>"

text \<open>\<^verbatim>\<open>update.message.reply_text(...)\<close> raises when the update has no message.\<close>

definition reply_text :: "Update \<Rightarrow> string \<Rightarrow> keyboard option \<Rightarrow> World \<Rightarrow> py_error + World" where
  "reply_text upd s kb w =
     (case message upd of
        None \<Rightarrow> Inl AttributeError
      | Some m \<Rightarrow> Inr (emit (ReplyText s kb) w))"

definition edit_message_text :: "string \<Rightarrow> keyboard option \<Rightarrow> World \<Rightarrow> World" where
  "edit_message_text s kb w = emit (EditMessageText s kb) w"

text \<open>\<^verbatim>\<open>user_data.get(key)\<close>, \<^verbatim>\<open>user_data[key] = v\<close> and \<^verbatim>\<open>user_data.pop(key, None)\<close>.\<close>

definition get_user_data :: "World \<Rightarrow> string \<Rightarrow> string option" where
  "get_user_data w key = (case user_data w key of None \<Rightarrow> None | Some v \<Rightarrow> v)"

definition set_user_data :: "string \<Rightarrow> string option \<Rightarrow> World \<Rightarrow> World" where
  "set_user_data key v w = w\<lparr>user_data := (user_data w)(key \<mapsto> v)\<rparr>"

definition pop_user_data :: "string \<Rightarrow> World \<Rightarrow> World" where
  "pop_user_data key w = w\<lparr>user_data := (user_data w)(key := None)\<rparr>"

text \<open>\<^verbatim>\<open>user.id if user else None\<close>.\<close>

definition id_of :: "User option \<Rightarrow> int option" where
  "id_of user = (case user of None \<Rightarrow> None | Some u \<Rightarrow> Some (uid u))"

section \<open>Keyboards\<close>

definition build_main_menu_keyboard :: "bool \<Rightarrow> keyboard" where
  "build_main_menu_keyboard is_admin =
     [[(''Profile'', ''menu_profile''), (''Utilities'', ''menu_utilities'')],
      [(''Feedback'', ''menu_feedback'')]]
     @ (if is_admin then [[(''Admin: Broadcast'', ''menu_admin_broadcast'')]] else [])"

definition build_yes_no_keyboard :: "string \<Rightarrow> keyboard" where
  "build_yes_no_keyboard prefix = [[(''Yes'', prefix @ '':yes''), (''No'', prefix @ '':no'')]]"

definition build_utility_menu_keyboard :: keyboard where
  "build_utility_menu_keyboard =
     [[(''Echo'', ''util_echo''), (''Roll Dice'', ''util_dice'')],
      [(''Random Number'', ''util_random''), (''Back'', ''util_back'')]]"

section \<open>Handlers\<close>

definition start :: "env \<Rightarrow> Update \<Rightarrow> World \<Rightarrow> handler_result" where
  "start e upd w =
     (case effective_user upd of
        None \<Rightarrow> (Returned None, w)
      | Some user \<Rightarrow>
          (case get_or_create_profile e (uid user) (store w) of
             (profile, s1) \<Rightarrow>
               (let s2 = (if name profile = None \<and> full_name user \<noteq> []
                          then update_profile_name e (uid user) (full_name user) s1
                          else s1);
                    is_admin = is_authorized e (Some (uid user));
                    kb = build_main_menu_keyboard is_admin;
                    txt = ''Welcome to the utility bot.'' @ NL
                          @ ''Use the buttons below or commands:'' @ NL
                          @ ''/register, /profile, /feedback, /help'';
                    w1 = w\<lparr>store := s2\<rparr>
                in (case reply_text upd txt (Some kb) w1 of
                      Inl err \<Rightarrow> (Raised err, w1)
                    | Inr w2 \<Rightarrow> (Returned None, w2)))))"

definition help_command :: "env \<Rightarrow> Update \<Rightarrow> World \<Rightarrow> handler_result" where
  "help_command e upd w =
     (let ls = [''Available commands:'',
                ''/start - Show main menu'',
                ''/register - Create or update your profile'',
                ''/profile - Show your profile information'',
                ''/feedback - Send feedback to the admins'',
                ''/echo <text> - Echo back text'']
               @ (if is_authorized e (id_of (effective_user upd))
                  then [''/broadcast - Send a message to all known users'',
                        ''/admin_feedback - Show recent feedback entries'']
                  else [])
      in (case reply_text upd (join NL ls) None w of
            Inl err \<Rightarrow> (Raised err, w)
          | Inr w1 \<Rightarrow> (Returned None, w1)))"

definition echo_command :: "env \<Rightarrow> Update \<Rightarrow> World \<Rightarrow> handler_result" where
  "echo_command e upd w =
     (case reply_text upd
             (if args upd \<noteq> [] then join '' '' (args upd)
              else ''Send text after /echo to repeat it.'') None w of
        Inl err \<Rightarrow> (Raised err, w)
      | Inr w1 \<Rightarrow> (Returned None, w1))"

definition profile_command :: "env \<Rightarrow> Update \<Rightarrow> World \<Rightarrow> handler_result" where
  "profile_command e upd w =
     (case effective_user upd of
        None \<Rightarrow> (Returned None, w)
      | Some user \<Rightarrow>
          (case get_or_create_profile e (uid user) (store w) of
             (profile, s1) \<Rightarrow>
               (let w1 = w\<lparr>store := s1\<rparr>
                in (case reply_text upd (format_profile e profile) None w1 of
                      Inl err \<Rightarrow> (Raised err, w1)
                    | Inr w2 \<Rightarrow> (Returned None, w2)))))"

definition register_start :: "env \<Rightarrow> Update \<Rightarrow> World \<Rightarrow> handler_result" where
  "register_start e upd w =
     (case effective_user upd of
        None \<Rightarrow> (Returned (Some END), w)
      | Some user \<Rightarrow>
          (case get_or_create_profile e (uid user) (store w) of
             (profile, s1) \<Rightarrow>
               (let w1 = w\<lparr>store := s1\<rparr>;
                    txt = (case name profile of
                             None \<Rightarrow> ''Send your name.''
                           | Some n \<Rightarrow>
                               if n \<noteq> []
                               then ''Your current name is: '' @ n @ NL @ ''Send a new name or /cancel.''
                               else ''Send your name.'')
                in (case reply_text upd txt None w1 of
                      Inl err \<Rightarrow> (Raised err, w1)
                    | Inr w2 \<Rightarrow> (Returned (Some REGISTER_NAME), w2)))))"

definition register_name :: "env \<Rightarrow> Update \<Rightarrow> World \<Rightarrow> handler_result" where
  "register_name e upd w =
     (case (effective_user upd, message upd) of
        (Some user, Some m) \<Rightarrow>
          (let name_text = strip (msg_text m)
           in if name_text = []
              then (Returned (Some REGISTER_NAME),
                    emit (ReplyText ''Name cannot be empty. Send your name.'' None) w)
              else (Returned (Some REGISTER_AGE),
                    emit (ReplyText ''Now send your age as a number.'' None)
                      (w\<lparr>store := update_profile_name e (uid user) name_text (store w)\<rparr>)))
      | _ \<Rightarrow> (Returned (Some END), w))"

definition register_age :: "env \<Rightarrow> Update \<Rightarrow> World \<Rightarrow> handler_result" where
  "register_age e upd w =
     (case (effective_user upd, message upd) of
        (Some user, Some m) \<Rightarrow>
          (let txt = strip (msg_text m)
           in (case py_int txt of
                 None \<Rightarrow>
                   (Returned (Some REGISTER_AGE),
                    emit (ReplyText ''Age must be a number. Send it again.'' None) w)
               | Some age_val \<Rightarrow>
                   if age_val \<le> 0 \<or> age_val > 120
                   then (Returned (Some REGISTER_AGE),
                         emit (ReplyText ''Age seems invalid. Send a realistic age.'' None) w)
                   else (let s1 = update_profile_age e (uid user) age_val (store w)
                         in (case get_or_create_profile e (uid user) s1 of
                               (profile, s2) \<Rightarrow>
                                 (Returned (Some END),
                                  emit (ReplyText (''Registration completed:'' @ NL @ NL
                                                   @ format_profile e profile) None)
                                    (w\<lparr>store := s2\<rparr>))))))
      | _ \<Rightarrow> (Returned (Some END), w))"

definition register_cancel :: "env \<Rightarrow> Update \<Rightarrow> World \<Rightarrow> handler_result" where
  "register_cancel e upd w =
     (case reply_text upd ''Registration cancelled.'' None w of
        Inl err \<Rightarrow> (Raised err, w)
      | Inr w1 \<Rightarrow> (Returned (Some END), w1))"

definition feedback_start :: "env \<Rightarrow> Update \<Rightarrow> World \<Rightarrow> handler_result" where
  "feedback_start e upd w =
     (case reply_text upd ''Send your feedback text or /cancel.'' None w of
        Inl err \<Rightarrow> (Raised err, w)
      | Inr w1 \<Rightarrow> (Returned (Some FEEDBACK_TEXT), w1))"

definition feedback_text :: "env \<Rightarrow> Update \<Rightarrow> World \<Rightarrow> handler_result" where
  "feedback_text e upd w =
     (case (message upd, effective_user upd) of
        (Some m, Some user) \<Rightarrow>
          (let txt = strip (msg_text m)
           in if txt = []
              then (Returned (Some FEEDBACK_TEXT),
                    emit (ReplyText ''Feedback cannot be empty. Send your text.'' None) w)
              else (Returned (Some FEEDBACK_CONFIRM),
                    emit (ReplyText ''Do you want to send this feedback?''
                            (Some (build_yes_no_keyboard ''feedback_confirm'')))
                      (set_user_data ''pending_feedback'' (Some txt) w)))
      | _ \<Rightarrow> (Returned (Some END), w))"

text \<open>
  The loop of \<^verbatim>\<open>feedback_decision\<close> over \<^verbatim>\<open>Config.AUTH_USERS\<close>: one send per
  administrator, a failure is logged and the loop goes on.
\<close>

fun notify_admins :: "env \<Rightarrow> string \<Rightarrow> int list \<Rightarrow> World \<Rightarrow> World" where
  "notify_admins e txt [] w = w"
| "notify_admins e txt (admin_id # rest) w =
     (if send_raises e admin_id txt
      then notify_admins e txt rest
             (emit (LogWarning ''Failed to send feedback to admin %s: %s'' admin_id)
                (emit (SendFailed admin_id txt) w))
      else notify_admins e txt rest (emit (SendMessage admin_id txt) w))"

definition feedback_decision :: "env \<Rightarrow> Update \<Rightarrow> World \<Rightarrow> handler_result" where
  "feedback_decision e upd w =
     (case callback_query upd of
        None \<Rightarrow> (Raised AttributeError, w)
      | Some query \<Rightarrow>
          (let w1 = emit AnswerQuery w;
               data_str = (case data query of None \<Rightarrow> [] | Some d \<Rightarrow> d)
           in (case get_user_data w1 ''pending_feedback'' of
                 None \<Rightarrow> (Returned (Some END), edit_message_text ''No feedback to send.'' None w1)
               | Some txt \<Rightarrow>
                   if endswith data_str ''yes''
                   then (case from_user query of
                           None \<Rightarrow> (Raised AttributeError, w1)
                         | Some user \<Rightarrow>
                             (let entry = \<lparr>fb_user_id = uid user, fb_username = username user,
                                           fb_text = txt, fb_created_at = now e\<rparr>;
                                  w2 = w1\<lparr>store := add_feedback entry (store w1)\<rparr>;
                                  notice = ''New feedback from '' @ str_int (uid user) @ '' (@''
                                         @ str_opt (username user) @ ''):'' @ NL @ txt;
                                  w3 = notify_admins e notice (AUTH_USERS e) w2;
                                  w4 = edit_message_text ''Feedback sent. Thank you.'' None w3
                              in (Returned (Some END), pop_user_data ''pending_feedback'' w4)))
                   else (Returned (Some END),
                         pop_user_data ''pending_feedback''
                           (edit_message_text ''Feedback discarded.'' None w1)))))"

definition feedback_cancel :: "env \<Rightarrow> Update \<Rightarrow> World \<Rightarrow> handler_result" where
  "feedback_cancel e upd w =
     (case reply_text upd ''Feedback cancelled.'' None w of
        Inl err \<Rightarrow> (Raised err, w)
      | Inr w1 \<Rightarrow> (Returned (Some END), pop_user_data ''pending_feedback'' w1))"

definition admin_show_feedback :: "env \<Rightarrow> Update \<Rightarrow> World \<Rightarrow> handler_result" where
  "admin_show_feedback e upd w =
     (let txt =
        (if \<not> is_authorized e (id_of (effective_user upd))
         then ''You are not authorized to use this command.''
         else (let entries = get_recent_feedback (Some 10) (store w)
               in if entries = [] then ''No feedback yet.''
                  else join NL
                         (map (\<lambda>entry. ''['' @ strftime e (fb_created_at entry) @ ''] from ''
                                         @ str_int (fb_user_id entry) @ '' (@''
                                         @ str_opt (fb_username entry) @ ''):'' @ NL
                                         @ fb_text entry @ NL)
                              entries)))
      in (case reply_text upd txt None w of
            Inl err \<Rightarrow> (Raised err, w)
          | Inr w1 \<Rightarrow> (Returned None, w1)))"

definition broadcast_start :: "env \<Rightarrow> Update \<Rightarrow> World \<Rightarrow> handler_result" where
  "broadcast_start e upd w =
     (if \<not> is_authorized e (id_of (effective_user upd))
      then (case reply_text upd ''You are not authorized to broadcast.'' None w of
              Inl err \<Rightarrow> (Raised err, w)
            | Inr w1 \<Rightarrow> (Returned (Some END), w1))
      else (case reply_text upd ''Send the broadcast message text or /cancel.'' None w of
              Inl err \<Rightarrow> (Raised err, w)
            | Inr w1 \<Rightarrow> (Returned (Some BROADCAST_TEXT), w1)))"

definition broadcast_text :: "env \<Rightarrow> Update \<Rightarrow> World \<Rightarrow> handler_result" where
  "broadcast_text e upd w =
     (case message upd of
        None \<Rightarrow> (Returned (Some END), w)
      | Some m \<Rightarrow>
          (let txt = strip (msg_text m)
           in if txt = []
              then (Returned (Some BROADCAST_TEXT),
                    emit (ReplyText ''Broadcast text cannot be empty.'' None) w)
              else (Returned (Some BROADCAST_CONFIRM),
                    emit (ReplyText ''Send this message to all known users?''
                            (Some (build_yes_no_keyboard ''broadcast_confirm'')))
                      (set_user_data ''pending_broadcast'' (Some txt) w))))"

text \<open>
  The loop of \<^verbatim>\<open>broadcast_decision\<close> over the snapshot \<^verbatim>\<open>targets\<close>, with its two
  counters. A blocked recipient is passed over (\<^verbatim>\<open>continue\<close>); a send that returns
  is counted in \<^verbatim>\<open>sent\<close> and followed by the pacing sleep; a send that raises is
  logged and counted in \<^verbatim>\<open>failed\<close>; in every case the loop goes on.
\<close>

fun broadcast_loop :: "env \<Rightarrow> string \<Rightarrow> int list \<Rightarrow> int \<times> int \<times> World \<Rightarrow> int \<times> int \<times> World" where
  "broadcast_loop e txt [] acc = acc"
| "broadcast_loop e txt (u # targets) (sent, failed, w) =
     (if is_blocked u (store w)
      then broadcast_loop e txt targets (sent, failed, w)
      else if send_raises e u txt
      then broadcast_loop e txt targets
             (sent, failed + 1,
              emit (LogWarning ''Failed to send broadcast to %s: %s'' u)
                (emit (SendFailed u txt) w))
      else broadcast_loop e txt targets
             (sent + 1, failed, emit Sleep (emit (SendMessage u txt) w)))"

definition broadcast_decision :: "env \<Rightarrow> Update \<Rightarrow> World \<Rightarrow> handler_result" where
  "broadcast_decision e upd w =
     (case callback_query upd of
        None \<Rightarrow> (Raised AttributeError, w)
      | Some query \<Rightarrow>
          (let w1 = emit AnswerQuery w;
               data_str = (case data query of None \<Rightarrow> [] | Some d \<Rightarrow> d)
           in (case get_user_data w1 ''pending_broadcast'' of
                 None \<Rightarrow> (Returned (Some END), edit_message_text ''No broadcast pending.'' None w1)
               | Some txt \<Rightarrow>
                   if \<not> is_authorized e (id_of (from_user query))
                   then (Returned (Some END), edit_message_text ''Not authorized.'' None w1)
                   else if endswith data_str ''yes''
                   then (case broadcast_loop e txt (map fst (profiles (store w1))) (0, 0, w1) of
                           (sent, failed, w2) \<Rightarrow>
                             (Returned (Some END),
                              pop_user_data ''pending_broadcast''
                                (edit_message_text
                                   (''Broadcast finished. Sent: '' @ str_int sent
                                    @ '', failed: '' @ str_int failed @ ''.'') None w2)))
                   else (Returned (Some END),
                         pop_user_data ''pending_broadcast''
                           (edit_message_text ''Broadcast cancelled.'' None w1)))))"

definition broadcast_cancel :: "env \<Rightarrow> Update \<Rightarrow> World \<Rightarrow> handler_result" where
  "broadcast_cancel e upd w =
     (case reply_text upd ''Broadcast cancelled.'' None w of
        Inl err \<Rightarrow> (Raised err, w)
      | Inr w1 \<Rightarrow> (Returned (Some END), pop_user_data ''pending_broadcast'' w1))"

definition button_main_menu :: "env \<Rightarrow> Update \<Rightarrow> World \<Rightarrow> handler_result" where
  "button_main_menu e upd w =
     (case callback_query upd of
        None \<Rightarrow> (Raised AttributeError, w)
      | Some query \<Rightarrow>
          (let w1 = emit AnswerQuery w;
               user = from_user query;
               data_str = (case data query of None \<Rightarrow> [] | Some d \<Rightarrow> d)
           in if data_str = ''menu_profile''
              then (case user of
                      None \<Rightarrow> (Raised AttributeError, w1)
                    | Some u \<Rightarrow>
                        (case get_or_create_profile e (uid u) (store w1) of
                           (profile, s1) \<Rightarrow>
                             (Returned None,
                              edit_message_text (format_profile e profile) None
                                (w1\<lparr>store := s1\<rparr>))))
              else if data_str = ''menu_utilities''
              then (Returned None,
                    set_user_data ''utility_mode'' None
                      (edit_message_text ''Choose a utility:''
                         (Some build_utility_menu_keyboard) w1))
              else if data_str = ''menu_feedback''
              then (Returned None,
                    edit_message_text ''Use /feedback to send feedback message to admins.'' None w1)
              else if data_str = ''menu_admin_broadcast''
              then (if \<not> is_authorized e (id_of user)
                    then (Returned None,
                          edit_message_text ''You are not authorized for admin actions.'' None w1)
                    else (Returned None,
                          edit_message_text ''Use /broadcast to send message to all known users.''
                            None w1))
              else (Returned None, w1)))"

definition utility_menu_handler :: "env \<Rightarrow> Update \<Rightarrow> World \<Rightarrow> handler_result" where
  "utility_menu_handler e upd w =
     (case callback_query upd of
        None \<Rightarrow> (Raised AttributeError, w)
      | Some query \<Rightarrow>
          (let w1 = emit AnswerQuery w;
               data_str = (case data query of None \<Rightarrow> [] | Some d \<Rightarrow> d)
           in if data_str = ''util_back''
              then (let kb = build_main_menu_keyboard (is_authorized e (id_of (from_user query)))
                    in (Returned None,
                        set_user_data ''utility_mode'' None
                          (edit_message_text ''Main menu:'' (Some kb) w1)))
              else if data_str = ''util_echo''
              then (Returned None,
                    edit_message_text ''Send text and I will echo it.'' None
                      (set_user_data ''utility_mode'' (Some ''echo'') w1))
              else if data_str = ''util_dice''
              then (Returned None,
                    set_user_data ''utility_mode'' None
                      (edit_message_text (''Dice rolled: '' @ str_int (randint e 1 6)) None w1))
              else if data_str = ''util_random''
              then (Returned None,
                    set_user_data ''utility_mode'' None
                      (edit_message_text (''Random number: '' @ str_int (randint e 0 100)) None w1))
              else (Returned None, w1)))"

definition utility_text_handler :: "env \<Rightarrow> Update \<Rightarrow> World \<Rightarrow> handler_result" where
  "utility_text_handler e upd w =
     (let mode = get_user_data w ''utility_mode''
      in (case message upd of
            None \<Rightarrow> (Returned None, w)
          | Some m \<Rightarrow>
              if mode = Some ''echo''
              then (Returned None, emit (ReplyText (msg_text m) None) w)
              else (Returned None,
                    emit (ReplyText ''I do not understand. Use /help or /start.'' None) w)))"

definition unknown_command :: "env \<Rightarrow> Update \<Rightarrow> World \<Rightarrow> handler_result" where
  "unknown_command e upd w =
     (case reply_text upd ''Unknown command. Use /help.'' None w of
        Inl err \<Rightarrow> (Raised err, w)
      | Inr w1 \<Rightarrow> (Returned None, w1))"

text \<open>
  \<^verbatim>\<open>error_handler\<close> receives any object as its update; \<open>None\<close> stands for one that is
  not an \<^verbatim>\<open>Update\<close>.
\<close>

definition error_handler :: "env \<Rightarrow> Update option \<Rightarrow> World \<Rightarrow> handler_result" where
  "error_handler e obj w =
     (let w1 = emit (LogError ''Exception while handling update %s'') w;
          txt = ''An error occurred while processing your request.''
      in (case obj of
            None \<Rightarrow> (Returned None, w1)
          | Some upd \<Rightarrow>
              (case effective_chat upd of
                 None \<Rightarrow> (Returned None, w1)
               | Some chat \<Rightarrow>
                   if send_raises e chat txt
                   then (Returned None,
                         emit (LogError ''Failed to send error message: %s'')
                           (emit (SendFailed chat txt) w1))
                   else (Returned None, emit (SendMessage chat txt) w1))))"

section \<open>The handlers that \<^verbatim>\<open>build_application\<close> registers\<close>

datatype handler =
    H_start | H_help_command | H_echo_command | H_profile_command | H_admin_show_feedback
  | H_register_start | H_register_name | H_register_age | H_register_cancel
  | H_feedback_start | H_feedback_text | H_feedback_decision | H_feedback_cancel
  | H_broadcast_start | H_broadcast_text | H_broadcast_decision | H_broadcast_cancel
  | H_button_main_menu | H_utility_menu_handler | H_utility_text_handler
  | H_unknown_command | H_error_handler

fun run_handler :: "handler \<Rightarrow> env \<Rightarrow> Update \<Rightarrow> World \<Rightarrow> handler_result" where
  "run_handler H_start e upd w = start e upd w"
| "run_handler H_help_command e upd w = help_command e upd w"
| "run_handler H_echo_command e upd w = echo_command e upd w"
| "run_handler H_profile_command e upd w = profile_command e upd w"
| "run_handler H_admin_show_feedback e upd w = admin_show_feedback e upd w"
| "run_handler H_register_start e upd w = register_start e upd w"
| "run_handler H_register_name e upd w = register_name e upd w"
| "run_handler H_register_age e upd w = register_age e upd w"
| "run_handler H_register_cancel e upd w = register_cancel e upd w"
| "run_handler H_feedback_start e upd w = feedback_start e upd w"
| "run_handler H_feedback_text e upd w = feedback_text e upd w"
| "run_handler H_feedback_decision e upd w = feedback_decision e upd w"
| "run_handler H_feedback_cancel e upd w = feedback_cancel e upd w"
| "run_handler H_broadcast_start e upd w = broadcast_start e upd w"
| "run_handler H_broadcast_text e upd w = broadcast_text e upd w"
| "run_handler H_broadcast_decision e upd w = broadcast_decision e upd w"
| "run_handler H_broadcast_cancel e upd w = broadcast_cancel e upd w"
| "run_handler H_button_main_menu e upd w = button_main_menu e upd w"
| "run_handler H_utility_menu_handler e upd w = utility_menu_handler e upd w"
| "run_handler H_utility_text_handler e upd w = utility_text_handler e upd w"
| "run_handler H_unknown_command e upd w = unknown_command e upd w"
| "run_handler H_error_handler e upd w = error_handler e (Some upd) w"

section \<open>Vocabulary of the properties\<close>

text \<open>The recipients of the send attempts among a list of effects, in order.\<close>

fun attempt_of :: "effect \<Rightarrow> int list" where
  "attempt_of (SendMessage u t) = [u]"
| "attempt_of (SendFailed u t) = [u]"
| "attempt_of x = []"

definition send_attempts :: "effect list \<Rightarrow> int list" where
  "send_attempts xs = concat (map attempt_of xs)"

text \<open>
  The free-text messages of one user, handled one after the other by
  \<^verbatim>\<open>utility_text_handler\<close> on that user's data.
\<close>

fun run_texts :: "env \<Rightarrow> Update list \<Rightarrow> World \<Rightarrow> World" where
  "run_texts e [] w = w"
| "run_texts e (upd # upds) w = run_texts e upds (snd (utility_text_handler e upd w))"

text \<open>
  Handlers called one after the other on the same user's data, each with its update.
\<close>

fun run_events :: "env \<Rightarrow> (handler \<times> Update) list \<Rightarrow> World \<Rightarrow> World" where
  "run_events e [] w = w"
| "run_events e ((h, upd) # evs) w = run_events e evs (snd (run_handler h e upd w))"

text \<open>
  The calls that set \<^verbatim>\<open>utility_mode\<close> to \<^verbatim>\<open>None\<close>: the utility menu on back, dice
  or random, and the main menu on the utilities button.
\<close>

definition resets_utility_mode :: "handler \<Rightarrow> Update \<Rightarrow> bool" where
  "resets_utility_mode h upd =
     (case callback_query upd of
        None \<Rightarrow> False
      | Some q \<Rightarrow>
          (let d = (case data q of None \<Rightarrow> [] | Some x \<Rightarrow> x)
           in (h = H_utility_menu_handler
                 \<and> (d = ''util_back'' \<or> d = ''util_dice'' \<or> d = ''util_random''))
              \<or> (h = H_button_main_menu \<and> d = ''menu_utilities'')))"

text \<open>Concrete inputs for the instances below.\<close>

definition demo_env :: env where
  "demo_env = \<lparr>AUTH_USERS = [1], now = 0, strftime = (\<lambda>t. ''2024-01-01 00:00:00''),
                randint = (\<lambda>lo hi. lo), send_raises = (\<lambda>chat t. chat = 3)\<rparr>"

definition demo_user :: "int \<Rightarrow> User" where
  "demo_user u = \<lparr>uid = u, full_name = ''Alice'', username = Some ''alice''\<rparr>"

definition text_update :: "int \<Rightarrow> string \<Rightarrow> Update" where
  "text_update u t =
     \<lparr>effective_user = Some (demo_user u), effective_chat = Some u,
      message = Some \<lparr>msg_text = t\<rparr>, callback_query = None, args = []\<rparr>"

definition button_update :: "int \<Rightarrow> string \<Rightarrow> Update" where
  "button_update u d =
     \<lparr>effective_user = Some (demo_user u), effective_chat = Some u, message = None,
      callback_query = Some \<lparr>from_user = Some (demo_user u), data = Some d\<rparr>, args = []\<rparr>"

definition new_profile :: "int \<Rightarrow> UserProfile" where
  "new_profile u = \<lparr>user_id = u, name = None, age = None, created_at = 0\<rparr>"

definition demo_store :: InMemoryStore where
  "demo_store = \<lparr>profiles = [(1, new_profile 1), (2, new_profile 2), (3, new_profile 3)],
                  feedback = [], blocked_users = {2}\<rparr>"

definition named_store :: InMemoryStore where
  "named_store =
     \<lparr>profiles = [(1, new_profile 1),
                  (2, \<lparr>user_id = 2, name = Some ''Bob'', age = Some 30, created_at = 0\<rparr>)],
      feedback = [], blocked_users = {}\<rparr>"

definition world_of :: "InMemoryStore \<Rightarrow> (string \<times> string option) list \<Rightarrow> World" where
  "world_of s kvs = \<lparr>store = s, user_data = map_of kvs, outbox = []\<rparr>"

section \<open>Properties\<close>

subsection \<open>Effects and the per-user data\<close>

lemma store_emit [simp]: "store (emit x w) = store w"
  and user_data_emit [simp]: "user_data (emit x w) = user_data w"
  and outbox_emit [simp]: "outbox (emit x w) = outbox w @ [x]"
  by (simp_all add: emit_def)

lemma store_edit [simp]: "store (edit_message_text s kb w) = store w"
  and user_data_edit [simp]: "user_data (edit_message_text s kb w) = user_data w"
  and outbox_edit [simp]: "outbox (edit_message_text s kb w) = outbox w @ [EditMessageText s kb]"
  by (simp_all add: edit_message_text_def)

lemma store_set_user_data [simp]: "store (set_user_data k v w) = store w"
  and outbox_set_user_data [simp]: "outbox (set_user_data k v w) = outbox w"
  and user_data_set_user_data [simp]: "user_data (set_user_data k v w) = (user_data w)(k \<mapsto> v)"
  by (simp_all add: set_user_data_def)

lemma store_pop_user_data [simp]: "store (pop_user_data k w) = store w"
  and outbox_pop_user_data [simp]: "outbox (pop_user_data k w) = outbox w"
  and user_data_pop_user_data [simp]: "user_data (pop_user_data k w) = (user_data w)(k := None)"
  by (simp_all add: pop_user_data_def)

lemma send_attempts_append [simp]: "send_attempts (xs @ ys) = send_attempts xs @ send_attempts ys"
  by (simp add: send_attempts_def)

lemma send_attempts_Nil [simp]: "send_attempts [] = []"
  by (simp add: send_attempts_def)

lemma send_attempts_Cons [simp]: "send_attempts (x # xs) = attempt_of x @ send_attempts xs"
  by (simp add: send_attempts_def)

lemma get_user_data_emit [simp]: "get_user_data (emit x w) k = get_user_data w k"
  by (simp add: get_user_data_def)

lemma get_user_data_edit [simp]: "get_user_data (edit_message_text s kb w) k = get_user_data w k"
  by (simp add: get_user_data_def)

lemma get_user_data_set [simp]:
  "get_user_data (set_user_data k v w) k' = (if k' = k then v else get_user_data w k')"
  by (simp add: get_user_data_def)

lemma get_user_data_pop [simp]:
  "get_user_data (pop_user_data k w) k' = (if k' = k then None else get_user_data w k')"
  by (simp add: get_user_data_def)

lemma get_user_data_store [simp]: "get_user_data (w\<lparr>store := s\<rparr>) k = get_user_data w k"
  by (simp add: get_user_data_def)

lemma emit_eq: "emit x w = w\<lparr>outbox := outbox w @ [x]\<rparr>"
  by (simp add: emit_def)

subsection \<open>The fan-out loop\<close>

lemma broadcast_loop_frame:
  "store (snd (snd (broadcast_loop e t targets (sent, failed, w)))) = store w
   \<and> user_data (snd (snd (broadcast_loop e t targets (sent, failed, w)))) = user_data w"
  by (induction targets arbitrary: sent failed w) (simp_all add: is_blocked_def)

lemma broadcast_loop_sent:
  "fst (broadcast_loop e t targets (sent, failed, w)) =
     sent + int (length (filter (\<lambda>u. \<not> is_blocked u (store w) \<and> \<not> send_raises e u t) targets))"
  by (induction targets arbitrary: sent failed w) (simp_all add: is_blocked_def)

lemma broadcast_loop_failed:
  "fst (snd (broadcast_loop e t targets (sent, failed, w))) =
     failed + int (length (filter (\<lambda>u. \<not> is_blocked u (store w) \<and> send_raises e u t) targets))"
  by (induction targets arbitrary: sent failed w) (simp_all add: is_blocked_def)

lemma broadcast_loop_attempts:
  "send_attempts (outbox (snd (snd (broadcast_loop e t targets (sent, failed, w))))) =
     send_attempts (outbox w) @ filter (\<lambda>u. \<not> is_blocked u (store w)) targets"
  by (induction targets arbitrary: sent failed w) (simp_all add: is_blocked_def)

lemma filter_partition3:
  "length (filter (\<lambda>u. \<not> B u \<and> \<not> F u) xs) + length (filter (\<lambda>u. \<not> B u \<and> F u) xs)
     + length (filter B xs) = length xs"
  by (induction xs) auto

text \<open>
  C2. The loop of \<^verbatim>\<open>broadcast_decision\<close> started with both counters at 0 on any
  snapshot \<open>targets\<close>: with S the size of the snapshot, B the number of blocked entries
  and F the number of entries that are not blocked and whose send raises, it ends with
  \<open>sent = S - B - F\<close> and \<open>failed = F\<close>, so \<open>sent + failed + B = S\<close>. The send attempts
  are exactly the entries that are not blocked, in snapshot order: a blocked entry is
  passed over without an attempt and without a count, and no failure stops the loop.
  The store is the same afterwards.
\<close>

theorem broadcast_fanout_counts:
  "(case broadcast_loop e t targets (0, 0, w) of
      (sent, failed, w') \<Rightarrow>
        sent = int (length targets)
               - int (length (filter (\<lambda>u. is_blocked u (store w)) targets))
               - int (length (filter (\<lambda>u. \<not> is_blocked u (store w) \<and> send_raises e u t) targets))
        \<and> failed = int (length (filter (\<lambda>u. \<not> is_blocked u (store w) \<and> send_raises e u t) targets))
        \<and> sent + failed + int (length (filter (\<lambda>u. is_blocked u (store w)) targets))
            = int (length targets)
        \<and> send_attempts (outbox w')
            = send_attempts (outbox w) @ filter (\<lambda>u. \<not> is_blocked u (store w)) targets
        \<and> store w' = store w)"
proof -
  obtain sent failed w' where r: "broadcast_loop e t targets (0, 0, w) = (sent, failed, w')"
    by (cases "broadcast_loop e t targets (0, 0, w)") auto
  let ?B = "\<lambda>u. is_blocked u (store w)"
  let ?F = "\<lambda>u. send_raises e u t"
  have s: "sent = int (length (filter (\<lambda>u. \<not> ?B u \<and> \<not> ?F u) targets))"
    using broadcast_loop_sent [where e = e and t = t and targets = targets and sent = 0
        and failed = 0 and w = w] r
    by simp
  have f: "failed = int (length (filter (\<lambda>u. \<not> ?B u \<and> ?F u) targets))"
    using broadcast_loop_failed [where e = e and t = t and targets = targets and sent = 0
        and failed = 0 and w = w] r
    by simp
  have a: "send_attempts (outbox w') = send_attempts (outbox w) @ filter (\<lambda>u. \<not> ?B u) targets"
    using broadcast_loop_attempts [where e = e and t = t and targets = targets and sent = 0
        and failed = 0 and w = w] r
    by simp
  have st: "store w' = store w"
    using broadcast_loop_frame [where e = e and t = t and targets = targets and sent = 0
        and failed = 0 and w = w] r
    by simp
  have p: "length (filter (\<lambda>u. \<not> ?B u \<and> \<not> ?F u) targets)
           + length (filter (\<lambda>u. \<not> ?B u \<and> ?F u) targets)
           + length (filter ?B targets) = length targets"
    by (rule filter_partition3)
  show ?thesis
    unfolding r using s f a st p by simp
qed

theorem broadcast_fanout_counts_witness:
  "(case broadcast_loop demo_env ''Hello'' [1, 2, 3] (0, 0, world_of demo_store []) of
      (sent, failed, w') \<Rightarrow>
        sent = 1 \<and> failed = 1 \<and> send_attempts (outbox w') = [1, 3])"
  using broadcast_fanout_counts [where e = demo_env and t = "''Hello''" and targets = "[1, 2, 3]"
      and w = "world_of demo_store []"]
  by (simp add: is_blocked_def demo_store_def demo_env_def world_of_def split: prod.splits)

text \<open>
  \<^verbatim>\<open>broadcast_decision\<close>, on the affirmative choice of a confirmer on the allow-list,
  runs this loop on the keys of \<^verbatim>\<open>store.profiles\<close> and reports its two counters.
\<close>

lemma broadcast_decision_confirmed:
  assumes "callback_query upd = Some q" and "get_user_data w ''pending_broadcast'' = Some t"
    and "is_authorized e (id_of (from_user q))" and "data q = Some d" and "endswith d ''yes''"
  shows "broadcast_decision e upd w =
           (case broadcast_loop e t (map fst (profiles (store w))) (0, 0, emit AnswerQuery w) of
              (sent, failed, w2) \<Rightarrow>
                (Returned (Some END),
                 pop_user_data ''pending_broadcast''
                   (edit_message_text
                      (''Broadcast finished. Sent: '' @ str_int sent
                       @ '', failed: '' @ str_int failed @ ''.'') None w2)))"
  using assms by (simp add: broadcast_decision_def Let_def)

text \<open>
  The scenario of three known users of whom user 2 is blocked and the send to user 3
  raises.
\<close>

lemma broadcast_scenario_report:
  "outbox (snd (broadcast_decision demo_env (button_update 1 ''broadcast_confirm:yes'')
                  (world_of demo_store [(''pending_broadcast'', Some ''Hello'')])))
     = [AnswerQuery, SendMessage 1 ''Hello'', Sleep, SendFailed 3 ''Hello'',
        LogWarning ''Failed to send broadcast to %s: %s'' 3,
        EditMessageText ''Broadcast finished. Sent: 1, failed: 1.'' None]"
proof -
  have one: "str_int 1 = ''1''"
    by code_simp
  show ?thesis
    by (simp add: broadcast_decision_def Let_def button_update_def world_of_def demo_store_def
        demo_env_def demo_user_def is_authorized_def id_of_def get_user_data_def endswith_def
        is_blocked_def emit_def edit_message_text_def one)
qed

subsection \<open>The feedback log\<close>

lemma py_slice_from_pos:
  "1 \<le> k \<Longrightarrow> py_slice_from xs (- k) = drop (length xs - nat k) xs"
  by (auto simp: py_slice_from_def Let_def max_def nat_diff_distrib'
      intro!: arg_cong [where f = "\<lambda>n. drop n xs"])

lemma drop_eq_self_iff:
  "drop (length xs - n) xs = xs \<longleftrightarrow> length xs - n = 0"
proof
  assume "drop (length xs - n) xs = xs"
  then have "length (drop (length xs - n) xs) = length xs"
    by simp
  then show "length xs - n = 0"
    by simp
next
  assume "length xs - n = 0"
  then show "drop (length xs - n) xs = xs"
    by simp
qed

text \<open>For a limit of at least 1 the query is the tail of the log of that length.\<close>

lemma get_recent_feedback_positive_limit:
  assumes "1 \<le> k"
  shows "get_recent_feedback (Some k) s = drop (length (feedback s) - nat k) (feedback s)"
    and "int (length (get_recent_feedback (Some k) s)) \<le> k"
    and "get_recent_feedback (Some k) s = feedback s \<longleftrightarrow> int (length (feedback s)) \<le> k"
proof -
  show d: "get_recent_feedback (Some k) s = drop (length (feedback s) - nat k) (feedback s)"
    using assms by (simp add: get_recent_feedback_def py_slice_from_pos)
  show "int (length (get_recent_feedback (Some k) s)) \<le> k"
    using assms unfolding d by simp
  have "drop (length (feedback s) - nat k) (feedback s) = feedback s
        \<longleftrightarrow> length (feedback s) - nat k = 0"
    by (rule drop_eq_self_iff)
  then show "get_recent_feedback (Some k) s = feedback s \<longleftrightarrow> int (length (feedback s)) \<le> k"
    using assms unfolding d by auto
qed

text \<open>Leaving the limit out is asking for 10 entries.\<close>

lemma get_recent_feedback_default:
  "get_recent_feedback None s = get_recent_feedback (Some 10) s"
  by (simp add: get_recent_feedback_def)

text \<open>
  C4. With limit 0 the slice \<^verbatim>\<open>self.feedback[-0:]\<close> is the whole list: the query
  returns every entry of the log, whatever its size, where at most 0 entries were asked for.
\<close>

theorem get_recent_feedback_zero_limit:
  "get_recent_feedback (Some 0) s = feedback s"
  by (simp add: get_recent_feedback_def py_slice_from_def)

subsection \<open>Confirmation steps\<close>

text \<open>The text steps stage the text when they move on to the confirmation.\<close>

lemma staging_enters_confirmation:
  "fst (feedback_text e upd w) = Returned (Some FEEDBACK_CONFIRM) \<Longrightarrow>
     get_user_data (snd (feedback_text e upd w)) ''pending_feedback'' \<noteq> None"
  "fst (broadcast_text e upd w) = Returned (Some BROADCAST_CONFIRM) \<Longrightarrow>
     get_user_data (snd (broadcast_text e upd w)) ''pending_broadcast'' \<noteq> None"
  by (auto simp: feedback_text_def broadcast_text_def Let_def FEEDBACK_CONFIRM_def
      FEEDBACK_TEXT_def BROADCAST_CONFIRM_def BROADCAST_TEXT_def END_def
      split: option.splits if_splits)

text \<open>
  Every return of the feedback confirmation and of the two cancel handlers leaves the
  staged key absent, and so does every return of the broadcast confirmation for a
  confirmer on the allow-list.
\<close>

lemma confirmation_exits_clear_staged_text:
  "fst (feedback_decision e upd w) = Returned r \<Longrightarrow>
     get_user_data (snd (feedback_decision e upd w)) ''pending_feedback'' = None"
  "fst (feedback_cancel e upd w) = Returned r \<Longrightarrow>
     get_user_data (snd (feedback_cancel e upd w)) ''pending_feedback'' = None"
  "fst (broadcast_cancel e upd w) = Returned r \<Longrightarrow>
     get_user_data (snd (broadcast_cancel e upd w)) ''pending_broadcast'' = None"
  "fst (broadcast_decision e upd w) = Returned r \<Longrightarrow> callback_query upd = Some q \<Longrightarrow>
     is_authorized e (id_of (from_user q)) \<Longrightarrow>
     get_user_data (snd (broadcast_decision e upd w)) ''pending_broadcast'' = None"
proof -
  show "fst (feedback_decision e upd w) = Returned r \<Longrightarrow>
     get_user_data (snd (feedback_decision e upd w)) ''pending_feedback'' = None"
    by (auto simp: feedback_decision_def Let_def split: option.splits if_splits)
  show "fst (feedback_cancel e upd w) = Returned r \<Longrightarrow>
     get_user_data (snd (feedback_cancel e upd w)) ''pending_feedback'' = None"
    by (auto simp: feedback_cancel_def reply_text_def split: option.splits)
  show "fst (broadcast_cancel e upd w) = Returned r \<Longrightarrow>
     get_user_data (snd (broadcast_cancel e upd w)) ''pending_broadcast'' = None"
    by (auto simp: broadcast_cancel_def reply_text_def split: option.splits)
  show "fst (broadcast_decision e upd w) = Returned r \<Longrightarrow> callback_query upd = Some q \<Longrightarrow>
     is_authorized e (id_of (from_user q)) \<Longrightarrow>
     get_user_data (snd (broadcast_decision e upd w)) ''pending_broadcast'' = None"
    by (auto simp: broadcast_decision_def Let_def case_prod_beta split: option.splits if_splits)
qed

text \<open>
  C3. \<^verbatim>\<open>broadcast_decision\<close> on a staged text \<open>hi\<close> and a confirmer who is not on the
  allow-list: the handler answers \<open>Not authorized.\<close> and ends the conversation, and
  \<^verbatim>\<open>pending_broadcast\<close> is still \<open>hi\<close> afterwards. The early return comes before the
  \<^verbatim>\<open>pop\<close> that every other exit of the confirmation steps reaches.
\<close>

theorem broadcast_decision_unauthorized_keeps_staged_text:
  "fst (broadcast_decision demo_env (button_update 5 ''broadcast_confirm:yes'')
          (world_of demo_store [(''pending_broadcast'', Some ''hi'')]))
     = Returned (Some END)
   \<and> get_user_data
       (snd (broadcast_decision demo_env (button_update 5 ''broadcast_confirm:yes'')
               (world_of demo_store [(''pending_broadcast'', Some ''hi'')])))
       ''pending_broadcast'' = Some ''hi''
   \<and> outbox
       (snd (broadcast_decision demo_env (button_update 5 ''broadcast_confirm:yes'')
               (world_of demo_store [(''pending_broadcast'', Some ''hi'')])))
     = [AnswerQuery, EditMessageText ''Not authorized.'' None]"
  by (simp add: broadcast_decision_def button_update_def world_of_def Let_def get_user_data_def
      is_authorized_def id_of_def demo_user_def demo_env_def emit_def edit_message_text_def)

text \<open>
  C8. The negative choice at the broadcast confirmation, pressed by a confirmer who is
  not on the allow-list, with the text \<open>hi\<close> staged: \<^verbatim>\<open>broadcast_decision\<close> ends
  the conversation, leaves the store unchanged and sends nothing, but
  \<^verbatim>\<open>pending_broadcast\<close> is still \<open>hi\<close> afterwards. It is the early return of C3,
  reached from the other button.
\<close>

theorem broadcast_negative_choice_keeps_staged_text:
  "fst (broadcast_decision demo_env (button_update 5 ''broadcast_confirm:no'')
          (world_of demo_store [(''pending_broadcast'', Some ''hi'')]))
     = Returned (Some END)
   \<and> store (snd (broadcast_decision demo_env (button_update 5 ''broadcast_confirm:no'')
                    (world_of demo_store [(''pending_broadcast'', Some ''hi'')])))
     = demo_store
   \<and> outbox (snd (broadcast_decision demo_env (button_update 5 ''broadcast_confirm:no'')
                     (world_of demo_store [(''pending_broadcast'', Some ''hi'')])))
     = [AnswerQuery, EditMessageText ''Not authorized.'' None]
   \<and> get_user_data
       (snd (broadcast_decision demo_env (button_update 5 ''broadcast_confirm:no'')
               (world_of demo_store [(''pending_broadcast'', Some ''hi'')])))
       ''pending_broadcast'' = Some ''hi''"
  by (simp add: broadcast_decision_def button_update_def world_of_def Let_def get_user_data_def
      is_authorized_def id_of_def demo_user_def demo_env_def emit_def edit_message_text_def)

text \<open>
  Where that early return is not taken, the negative choice does discard: on it,
  \<^verbatim>\<open>feedback_decision\<close> with a staged text, and \<^verbatim>\<open>broadcast_decision\<close> with a staged
  text and a confirmer on the allow-list, change nothing but the user's data and the
  effects: the staged key is removed, the reply is the discard message, nothing is
  appended to the feedback log, nothing is sent, and the conversation ends, whatever the
  staged text is.
\<close>

theorem negative_choice_discards:
  assumes "callback_query upd = Some q" and "data q = Some d" and "\<not> endswith d ''yes''"
  shows "(get_user_data w ''pending_feedback'' = Some t \<longrightarrow>
            feedback_decision e upd w =
              (Returned (Some END),
               w\<lparr>user_data := (user_data w)(''pending_feedback'' := None),
                 outbox := outbox w @ [AnswerQuery, EditMessageText ''Feedback discarded.'' None]\<rparr>))
       \<and> (get_user_data w ''pending_broadcast'' = Some t \<and> is_authorized e (id_of (from_user q)) \<longrightarrow>
            broadcast_decision e upd w =
              (Returned (Some END),
               w\<lparr>user_data := (user_data w)(''pending_broadcast'' := None),
                 outbox := outbox w @ [AnswerQuery, EditMessageText ''Broadcast cancelled.'' None]\<rparr>))
       \<and> (get_user_data w ''pending_broadcast'' = Some t \<and> \<not> is_authorized e (id_of (from_user q)) \<longrightarrow>
            fst (broadcast_decision e upd w) = Returned (Some END)
            \<and> store (snd (broadcast_decision e upd w)) = store w
            \<and> outbox (snd (broadcast_decision e upd w))
                = outbox w @ [AnswerQuery, EditMessageText ''Not authorized.'' None])"
  using assms
  by (simp add: feedback_decision_def broadcast_decision_def Let_def emit_def
      edit_message_text_def get_user_data_def pop_user_data_def)

theorem negative_choice_discards_witness:
  "feedback_decision demo_env (button_update 5 ''feedback_confirm:no'')
      (world_of demo_store [(''pending_feedback'', Some ''nice bot'')])
     = (Returned (Some END),
        \<lparr>store = demo_store, user_data = Map.empty,
         outbox = [AnswerQuery, EditMessageText ''Feedback discarded.'' None]\<rparr>)
   \<and> broadcast_decision demo_env (button_update 1 ''broadcast_confirm:no'')
      (world_of demo_store [(''pending_broadcast'', Some ''hi'')])
     = (Returned (Some END),
        \<lparr>store = demo_store, user_data = Map.empty,
         outbox = [AnswerQuery, EditMessageText ''Broadcast cancelled.'' None]\<rparr>)"
proof -
  have q5: "callback_query (button_update 5 ''feedback_confirm:no'')
            = Some \<lparr>from_user = Some (demo_user 5), data = Some ''feedback_confirm:no''\<rparr>"
    by (simp add: button_update_def)
  have q1: "callback_query (button_update 1 ''broadcast_confirm:no'')
            = Some \<lparr>from_user = Some (demo_user 1), data = Some ''broadcast_confirm:no''\<rparr>"
    by (simp add: button_update_def)
  have d5: "data \<lparr>from_user = Some (demo_user 5), data = Some ''feedback_confirm:no''\<rparr>
            = Some ''feedback_confirm:no''"
    and d1: "data \<lparr>from_user = Some (demo_user 1), data = Some ''broadcast_confirm:no''\<rparr>
            = Some ''broadcast_confirm:no''"
    by simp_all
  have n5: "\<not> endswith ''feedback_confirm:no'' ''yes''"
    and n1: "\<not> endswith ''broadcast_confirm:no'' ''yes''"
    by (simp_all add: endswith_def)
  have g5: "get_user_data (world_of demo_store [(''pending_feedback'', Some ''nice bot'')])
              ''pending_feedback'' = Some ''nice bot''"
    and g1: "get_user_data (world_of demo_store [(''pending_broadcast'', Some ''hi'')])
              ''pending_broadcast'' = Some ''hi''"
    by (simp_all add: get_user_data_def world_of_def)
  have a1: "is_authorized demo_env
              (id_of (from_user \<lparr>from_user = Some (demo_user 1), data = Some ''broadcast_confirm:no''\<rparr>))"
    by (simp add: is_authorized_def id_of_def demo_user_def demo_env_def)
  have u5: "(map_of [(''pending_feedback'', Some ''nice bot'')])(''pending_feedback'' := None) = Map.empty"
    and u1: "(map_of [(''pending_broadcast'', Some ''hi'')])(''pending_broadcast'' := None) = Map.empty"
    by (simp_all add: fun_eq_iff)
  from negative_choice_discards [OF q5 d5 n5, where e = demo_env and t = "''nice bot''"
        and w = "world_of demo_store [(''pending_feedback'', Some ''nice bot'')]"]
      negative_choice_discards [OF q1 d1 n1, where e = demo_env and t = "''hi''"
        and w = "world_of demo_store [(''pending_broadcast'', Some ''hi'')]"]
      g5 g1 a1 u5 u1
  show ?thesis
    by (simp add: world_of_def)
qed

text \<open>
  C10. A confirmation callback with no staged text: the handler answers the query,
  replies that nothing is pending and ends the conversation. The store and the user's
  data are unchanged; the two replies are the only effects, so nothing is appended to
  the feedback log and nothing is sent.
\<close>

theorem decision_without_staged_text:
  assumes "callback_query upd = Some q"
  shows "(get_user_data w ''pending_feedback'' = None \<longrightarrow>
            feedback_decision e upd w =
              (Returned (Some END),
               w\<lparr>outbox := outbox w @ [AnswerQuery, EditMessageText ''No feedback to send.'' None]\<rparr>))
       \<and> (get_user_data w ''pending_broadcast'' = None \<longrightarrow>
            broadcast_decision e upd w =
              (Returned (Some END),
               w\<lparr>outbox := outbox w @ [AnswerQuery, EditMessageText ''No broadcast pending.'' None]\<rparr>))"
  using assms
  by (simp add: feedback_decision_def broadcast_decision_def Let_def emit_def
      edit_message_text_def get_user_data_def)

theorem decision_without_staged_text_witness:
  "feedback_decision demo_env (button_update 5 ''feedback_confirm:yes'') (world_of demo_store [])
     = (Returned (Some END),
        \<lparr>store = demo_store, user_data = Map.empty,
         outbox = [AnswerQuery, EditMessageText ''No feedback to send.'' None]\<rparr>)
   \<and> broadcast_decision demo_env (button_update 1 ''broadcast_confirm:yes'') (world_of demo_store [])
     = (Returned (Some END),
        \<lparr>store = demo_store, user_data = Map.empty,
         outbox = [AnswerQuery, EditMessageText ''No broadcast pending.'' None]\<rparr>)"
proof -
  have q5: "callback_query (button_update 5 ''feedback_confirm:yes'')
            = Some \<lparr>from_user = Some (demo_user 5), data = Some ''feedback_confirm:yes''\<rparr>"
    by (simp add: button_update_def)
  have q1: "callback_query (button_update 1 ''broadcast_confirm:yes'')
            = Some \<lparr>from_user = Some (demo_user 1), data = Some ''broadcast_confirm:yes''\<rparr>"
    by (simp add: button_update_def)
  have n: "get_user_data (world_of demo_store []) ''pending_feedback'' = None"
          "get_user_data (world_of demo_store []) ''pending_broadcast'' = None"
    by (simp_all add: get_user_data_def world_of_def)
  show ?thesis
    using decision_without_staged_text [OF q5, of "world_of demo_store []" demo_env]
      decision_without_staged_text [OF q1, of "world_of demo_store []" demo_env] n
    by (simp add: world_of_def)
qed

subsection \<open>The store\<close>

lemma get_or_create_profile_fst:
  "fst (get_or_create_profile e v s) =
     (case map_of (profiles s) v of
        Some p \<Rightarrow> p
      | None \<Rightarrow> \<lparr>user_id = v, name = None, age = None, created_at = now e\<rparr>)"
  by (simp add: get_or_create_profile_def Let_def split: option.splits)

lemma get_or_create_profile_lookup:
  "map_of (profiles (snd (get_or_create_profile e v s))) =
     (map_of (profiles s))(v \<mapsto> fst (get_or_create_profile e v s))"
  by (auto simp: get_or_create_profile_def Let_def fun_eq_iff map_add_def split: option.splits)

lemma in_keys_iff: "v \<in> set (map fst xs) \<longleftrightarrow> map_of xs v \<noteq> None"
  by (simp add: map_of_eq_None_iff)

lemma get_or_create_profile_keys:
  "map fst (profiles (snd (get_or_create_profile e v s))) =
     (if v \<in> set (map fst (profiles s)) then map fst (profiles s) else map fst (profiles s) @ [v])"
  unfolding in_keys_iff
  by (simp add: get_or_create_profile_def Let_def split: option.splits)

lemma get_or_create_profile_rest:
  "feedback (snd (get_or_create_profile e v s)) = feedback s"
  "blocked_users (snd (get_or_create_profile e v s)) = blocked_users s"
  by (simp_all add: get_or_create_profile_def Let_def split: option.splits)

lemma get_or_create_profile_again:
  "map_of (profiles (snd (get_or_create_profile e v s))) v = Some (fst (get_or_create_profile e v s))"
  by (simp add: get_or_create_profile_lookup)

lemma update_profile_name_lookup:
  "map_of (profiles (update_profile_name e v n s)) =
     (map_of (profiles s))(v \<mapsto> (fst (get_or_create_profile e v s))\<lparr>name := Some n\<rparr>)"
  by (simp add: update_profile_name_def update_conv' get_or_create_profile_lookup
      case_prod_beta)

lemma update_profile_age_lookup:
  "map_of (profiles (update_profile_age e v a s)) =
     (map_of (profiles s))(v \<mapsto> (fst (get_or_create_profile e v s))\<lparr>age := Some a\<rparr>)"
  by (simp add: update_profile_age_def update_conv' get_or_create_profile_lookup
      case_prod_beta)

lemma update_profile_name_keys:
  "map fst (profiles (update_profile_name e v n s)) =
     (if v \<in> set (map fst (profiles s)) then map fst (profiles s) else map fst (profiles s) @ [v])"
  by (simp add: update_profile_name_def update_keys get_or_create_profile_keys case_prod_beta)

lemma update_profile_age_keys:
  "map fst (profiles (update_profile_age e v a s)) =
     (if v \<in> set (map fst (profiles s)) then map fst (profiles s) else map fst (profiles s) @ [v])"
  by (simp add: update_profile_age_def update_keys get_or_create_profile_keys case_prod_beta)

lemma update_profile_rest:
  "feedback (update_profile_name e v n s) = feedback s"
  "blocked_users (update_profile_name e v n s) = blocked_users s"
  "feedback (update_profile_age e v a s) = feedback s"
  "blocked_users (update_profile_age e v a s) = blocked_users s"
  by (simp_all add: update_profile_name_def update_profile_age_def get_or_create_profile_rest
      case_prod_beta)

lemma get_or_create_profile_after_age:
  "get_or_create_profile e v (update_profile_age e v a s) =
     ((fst (get_or_create_profile e v s))\<lparr>age := Some a\<rparr>, update_profile_age e v a s)"
  by (simp add: get_or_create_profile_def [of e v "update_profile_age e v a s"]
      update_profile_age_lookup)

lemma get_or_create_profile_kept:
  "map_of (profiles s) u = Some p \<Longrightarrow>
     map_of (profiles (snd (get_or_create_profile e v s))) u = Some p"
  by (auto simp: get_or_create_profile_lookup get_or_create_profile_fst)

lemma get_or_create_profile_found:
  "map_of (profiles s) v = Some p \<Longrightarrow> fst (get_or_create_profile e v s) = p"
  by (simp add: get_or_create_profile_fst)

lemma get_or_create_profile_keys_ext:
  "\<exists>ks. map fst (profiles (snd (get_or_create_profile e v s))) = map fst (profiles s) @ ks"
  by (simp add: get_or_create_profile_keys)

lemma update_profile_name_kept:
  "map_of (profiles s) u = Some p \<Longrightarrow>
     map_of (profiles (update_profile_name e v n s)) u
       = Some (if u = v then p\<lparr>name := Some n\<rparr> else p)"
  by (auto simp: update_profile_name_lookup get_or_create_profile_fst)

lemma update_profile_age_kept:
  "map_of (profiles s) u = Some p \<Longrightarrow>
     map_of (profiles (update_profile_age e v a s)) u
       = Some (if u = v then p\<lparr>age := Some a\<rparr> else p)"
  by (auto simp: update_profile_age_lookup get_or_create_profile_fst)

lemma update_profile_keys_ext:
  "\<exists>ks. map fst (profiles (update_profile_name e v n s)) = map fst (profiles s) @ ks"
  "\<exists>ks. map fst (profiles (update_profile_age e v a s)) = map fst (profiles s) @ ks"
  by (simp_all add: update_profile_name_keys update_profile_age_keys)

text \<open>The store operations keep the keys of \<^verbatim>\<open>profiles\<close> distinct, as a dict has them.\<close>

lemma profiles_keys_distinct:
  assumes "distinct (map fst (profiles s))"
  shows "distinct (map fst (profiles (snd (get_or_create_profile e v s))))"
    and "distinct (map fst (profiles (update_profile_name e v n s)))"
    and "distinct (map fst (profiles (update_profile_age e v a s)))"
  using assms
  by (simp_all add: get_or_create_profile_keys update_profile_name_keys update_profile_age_keys)

text \<open>The other operations of the store do not touch the profiles.\<close>

lemma store_operations_keep_profiles:
  "profiles (add_feedback entry s) = profiles s"
  "profiles (block_user u s) = profiles s"
  "profiles (unblock_user u s) = profiles s"
  by (simp_all add: add_feedback_def block_user_def unblock_user_def)

subsection \<open>Registration\<close>

text \<open>
  C6. The age step on a text message of a user. When \<^verbatim>\<open>int\<close> rejects the stripped
  text, or accepts it with a value outside 1 to 120, the handler only adds its re-prompt
  to the effects and returns \<^verbatim>\<open>REGISTER_AGE\<close>: the store, and with it the age of
  every profile, is unchanged. When the value is within 1 to 120, the store becomes
  \<^verbatim>\<open>update_profile_age\<close> of the old one, in which the user's profile (the existing
  one, or a new one) carries that age and every other profile is as before; the handler
  returns \<^verbatim>\<open>ConversationHandler.END\<close>, and its reply is the summary of that profile:
  the heading \<open>Registration completed:\<close>, an empty line, then one line each for the
  id, the name when the profile has a non-empty one, the new age, and the time of
  creation.
\<close>

theorem register_age_validates:
  assumes "effective_user upd = Some user" and "message upd = Some m"
  shows "(case py_int (strip (msg_text m)) of
            None \<Rightarrow>
              register_age e upd w =
                (Returned (Some REGISTER_AGE),
                 w\<lparr>outbox := outbox w @ [ReplyText ''Age must be a number. Send it again.'' None]\<rparr>)
          | Some a \<Rightarrow>
              if 1 \<le> a \<and> a \<le> 120
              then register_age e upd w =
                     (Returned (Some END),
                      w\<lparr>store := update_profile_age e (uid user) a (store w),
                        outbox := outbox w @
                          [ReplyText
                             (''Registration completed:'' @ NL @ NL @
                              join NL
                                ([''ID: '' @ str_int
                                    (user_id (fst (get_or_create_profile e (uid user) (store w))))]
                                 @ (case name (fst (get_or_create_profile e (uid user) (store w))) of
                                      None \<Rightarrow> []
                                    | Some n \<Rightarrow> if n \<noteq> [] then [''Name: '' @ n] else [])
                                 @ [''Age: '' @ str_int a,
                                    ''Registered: '' @ strftime e
                                      (created_at (fst (get_or_create_profile e (uid user) (store w))))]))
                             None]\<rparr>)
                   \<and> map_of (profiles (update_profile_age e (uid user) a (store w))) =
                       (map_of (profiles (store w)))
                         (uid user \<mapsto> (fst (get_or_create_profile e (uid user) (store w)))\<lparr>age := Some a\<rparr>)
              else register_age e upd w =
                     (Returned (Some REGISTER_AGE),
                      w\<lparr>outbox := outbox w @ [ReplyText ''Age seems invalid. Send a realistic age.'' None]\<rparr>))"
proof (cases "py_int (strip (msg_text m))")
  case None
  then show ?thesis
    using assms by (simp add: register_age_def emit_def)
next
  case (Some a)
  consider (low) "a \<le> 0" | (high) "120 < a" | (ok) "1 \<le> a" "a \<le> 120"
    by arith
  then show ?thesis
  proof cases
    case low
    then show ?thesis
      using assms Some by (simp add: register_age_def emit_def)
  next
    case high
    then show ?thesis
      using assms Some by (simp add: register_age_def emit_def)
  next
    case ok
    then show ?thesis
      using assms Some
      by (simp add: register_age_def Let_def emit_def get_or_create_profile_after_age
          update_profile_age_lookup format_profile_def)
  qed
qed

theorem register_age_validates_witness:
  "register_age demo_env (text_update 5 ''abc'') (world_of named_store [])
     = (Returned (Some REGISTER_AGE),
        \<lparr>store = named_store, user_data = Map.empty,
         outbox = [ReplyText ''Age must be a number. Send it again.'' None]\<rparr>)
   \<and> register_age demo_env (text_update 5 ''121'') (world_of named_store [])
     = (Returned (Some REGISTER_AGE),
        \<lparr>store = named_store, user_data = Map.empty,
         outbox = [ReplyText ''Age seems invalid. Send a realistic age.'' None]\<rparr>)
   \<and> fst (register_age demo_env (text_update 2 '' 35 '') (world_of named_store []))
     = Returned (Some END)
   \<and> outbox (snd (register_age demo_env (text_update 2 '' 35 '') (world_of named_store [])))
     = [ReplyText (''Registration completed:'' @ NL @ NL @ ''ID: 2'' @ NL @ ''Name: Bob'' @ NL
                   @ ''Age: 35'' @ NL @ ''Registered: 2024-01-01 00:00:00'') None]
   \<and> map_of (profiles (store (snd (register_age demo_env (text_update 2 '' 35 '')
                                      (world_of named_store []))))) 2
     = Some \<lparr>user_id = 2, name = Some ''Bob'', age = Some 35, created_at = 0\<rparr>"
proof -
  have u: "effective_user (text_update i t) = Some (demo_user i)"
    and m: "message (text_update i t) = Some \<lparr>msg_text = t\<rparr>" for i t
    by (simp_all add: text_update_def)
  have p1: "py_int (strip (msg_text \<lparr>msg_text = ''abc''\<rparr>)) = None"
    and p2: "py_int (strip (msg_text \<lparr>msg_text = ''121''\<rparr>)) = Some 121"
    and p3: "py_int (strip (msg_text \<lparr>msg_text = '' 35 ''\<rparr>)) = Some 35"
    by (simp_all add: py_int_def strip_def isspace_def isdigit_def digits_value_def digit_val_def)
  have g: "fst (get_or_create_profile demo_env 2 named_store)
           = \<lparr>user_id = 2, name = Some ''Bob'', age = Some 30, created_at = 0\<rparr>"
    by (simp add: get_or_create_profile_fst named_store_def)
  have d: "str_int 2 = ''2''" "str_int 35 = ''35''"
    by code_simp+
  have f: "strftime demo_env 0 = ''2024-01-01 00:00:00''"
    by (simp add: demo_env_def)
  note t1 = register_age_validates [OF u [of 5 "''abc''"] m [of 5 "''abc''"],
      where e = demo_env and w = "world_of named_store []", unfolded p1, simplified]
  note t2 = register_age_validates [OF u [of 5 "''121''"] m [of 5 "''121''"],
      where e = demo_env and w = "world_of named_store []", unfolded p2, simplified]
  note t3 = register_age_validates [OF u [of 2 "'' 35 ''"] m [of 2 "'' 35 ''"],
      where e = demo_env and w = "world_of named_store []", unfolded p3, simplified]
  show ?thesis
    using t1 t2 t3 g d f
    by (simp add: world_of_def demo_user_def)
qed

text \<open>
  C9. \<^verbatim>\<open>register_cancel\<close> never changes the store or the user's data, whatever the
  step it is called in; on a message it replies and returns
  \<^verbatim>\<open>ConversationHandler.END\<close>. After a name step that accepted a name, a cancellation
  leaves the user's profile with exactly that name.
\<close>

theorem register_cancel_keeps_commits:
  "store (snd (register_cancel e upd w)) = store w
   \<and> user_data (snd (register_cancel e upd w)) = user_data w
   \<and> (message upd = Some m \<longrightarrow>
        register_cancel e upd w =
          (Returned (Some END), w\<lparr>outbox := outbox w @ [ReplyText ''Registration cancelled.'' None]\<rparr>))
   \<and> (effective_user upd_name = Some user \<and> message upd_name = Some m_name \<and> strip (msg_text m_name) \<noteq> [] \<longrightarrow>
        fst (register_name e upd_name w) = Returned (Some REGISTER_AGE)
        \<and> map_of (profiles (store (snd (register_cancel e upd (snd (register_name e upd_name w))))))
            (uid user)
          = Some ((fst (get_or_create_profile e (uid user) (store w)))
                    \<lparr>name := Some (strip (msg_text m_name))\<rparr>))"
proof -
  have frame: "store (snd (register_cancel e upd w')) = store w'
               \<and> user_data (snd (register_cancel e upd w')) = user_data w'" for w'
    by (simp add: register_cancel_def reply_text_def emit_def split: option.splits)
  have reply: "message upd = Some m \<longrightarrow>
        register_cancel e upd w =
          (Returned (Some END), w\<lparr>outbox := outbox w @ [ReplyText ''Registration cancelled.'' None]\<rparr>)"
    by (simp add: register_cancel_def reply_text_def emit_def)
  have nm: "fst (register_name e upd_name w) = Returned (Some REGISTER_AGE)
            \<and> store (snd (register_name e upd_name w))
                = update_profile_name e (uid user) (strip (msg_text m_name)) (store w)"
    if "effective_user upd_name = Some user" "message upd_name = Some m_name" "strip (msg_text m_name) \<noteq> []"
    using that by (simp add: register_name_def Let_def)
  show ?thesis
    using frame [of w] frame [of "snd (register_name e upd_name w)"] reply nm
    by (simp add: update_profile_name_lookup)
qed

theorem register_cancel_keeps_commits_witness:
  "map_of (profiles (store (snd (register_cancel demo_env (text_update 5 ''/cancel'')
                                  (snd (register_name demo_env (text_update 5 '' Bob '')
                                          (world_of demo_store []))))))) 5
     = Some \<lparr>user_id = 5, name = Some ''Bob'', age = None, created_at = 0\<rparr>
   \<and> fst (register_cancel demo_env (text_update 5 ''/cancel'')
            (snd (register_name demo_env (text_update 5 '' Bob '') (world_of demo_store []))))
     = Returned (Some END)"
proof -
  have h: "effective_user (text_update 5 '' Bob '') = Some (demo_user 5)
           \<and> message (text_update 5 '' Bob '') = Some \<lparr>msg_text = '' Bob ''\<rparr>
           \<and> strip (msg_text \<lparr>msg_text = '' Bob ''\<rparr>) \<noteq> []"
    by (simp add: text_update_def strip_def isspace_def)
  have c: "message (text_update 5 ''/cancel'') = Some \<lparr>msg_text = ''/cancel''\<rparr>"
    by (simp add: text_update_def)
  have s: "strip '' Bob '' = ''Bob''"
    by (simp add: strip_def isspace_def)
  have g: "fst (get_or_create_profile demo_env 5 demo_store)
           = \<lparr>user_id = 5, name = None, age = None, created_at = 0\<rparr>"
    by (simp add: get_or_create_profile_fst demo_store_def demo_env_def)
  note a = register_cancel_keeps_commits [where e = demo_env and upd = "text_update 5 ''/cancel''"
      and upd_name = "text_update 5 '' Bob ''" and w = "world_of demo_store []",
      THEN conjunct2, THEN conjunct2, THEN conjunct2, THEN mp, OF h]
  note b = register_cancel_keeps_commits [where e = demo_env and upd = "text_update 5 ''/cancel''"
      and w = "snd (register_name demo_env (text_update 5 '' Bob '') (world_of demo_store []))",
      THEN conjunct2, THEN conjunct2, THEN conjunct1, THEN mp, OF c]
  from a b s g show ?thesis
    by (simp add: world_of_def demo_user_def)
qed

subsection \<open>Authorization of the broadcast flow\<close>

text \<open>
  C7. For a requester who is not on the allow-list, \<^verbatim>\<open>broadcast_start\<close> only replies
  with the authorization error and returns \<^verbatim>\<open>ConversationHandler.END\<close>: the state
  \<^verbatim>\<open>BROADCAST_TEXT\<close> is not entered, and the store and the user's data are unchanged
  (on an update without a message the reply itself raises, with nothing changed). For a
  confirmer who is not on the allow-list, \<^verbatim>\<open>broadcast_decision\<close> ends the conversation
  with the store unchanged and without a single send attempt, whatever the original check
  said; at the confirmation step, that is with a text staged, its reply is
  \<open>Not authorized.\<close>
\<close>

theorem broadcast_authorization_gate:
  "(\<not> is_authorized e (id_of (effective_user upd)) \<longrightarrow>
      broadcast_start e upd w =
        (case message upd of
           None \<Rightarrow> (Raised AttributeError, w)
         | Some m \<Rightarrow>
             (Returned (Some END),
              w\<lparr>outbox := outbox w @ [ReplyText ''You are not authorized to broadcast.'' None]\<rparr>)))
   \<and> (callback_query upd = Some q \<and> \<not> is_authorized e (id_of (from_user q)) \<longrightarrow>
        fst (broadcast_decision e upd w) = Returned (Some END)
        \<and> store (snd (broadcast_decision e upd w)) = store w
        \<and> send_attempts (outbox (snd (broadcast_decision e upd w))) = send_attempts (outbox w)
        \<and> (get_user_data w ''pending_broadcast'' \<noteq> None \<longrightarrow>
             outbox (snd (broadcast_decision e upd w))
               = outbox w @ [AnswerQuery, EditMessageText ''Not authorized.'' None]))"
  by (auto simp: broadcast_start_def broadcast_decision_def reply_text_def Let_def emit_def
      edit_message_text_def get_user_data_def split: option.splits)

theorem broadcast_authorization_gate_witness:
  "broadcast_start demo_env (text_update 5 ''/broadcast'') (world_of demo_store [])
     = (Returned (Some END),
        \<lparr>store = demo_store, user_data = Map.empty,
         outbox = [ReplyText ''You are not authorized to broadcast.'' None]\<rparr>)
   \<and> outbox (snd (broadcast_decision demo_env (button_update 5 ''broadcast_confirm:yes'')
                     (world_of demo_store [(''pending_broadcast'', Some ''hi'')])))
     = [AnswerQuery, EditMessageText ''Not authorized.'' None]
   \<and> store (snd (broadcast_decision demo_env (button_update 5 ''broadcast_confirm:yes'')
                    (world_of demo_store [(''pending_broadcast'', Some ''hi'')])))
     = demo_store"
proof -
  have n: "\<not> is_authorized demo_env (id_of (effective_user (text_update 5 ''/broadcast'')))"
    by (simp add: is_authorized_def id_of_def text_update_def demo_user_def demo_env_def)
  have q: "callback_query (button_update 5 ''broadcast_confirm:yes'')
             = Some \<lparr>from_user = Some (demo_user 5), data = Some ''broadcast_confirm:yes''\<rparr>
           \<and> \<not> is_authorized demo_env
                 (id_of (from_user \<lparr>from_user = Some (demo_user 5),
                                     data = Some ''broadcast_confirm:yes''\<rparr>))"
    by (simp add: button_update_def is_authorized_def id_of_def demo_user_def demo_env_def)
  have g: "get_user_data (world_of demo_store [(''pending_broadcast'', Some ''hi'')])
             ''pending_broadcast'' \<noteq> None"
    by (simp add: get_user_data_def world_of_def)
  note a = broadcast_authorization_gate [where e = demo_env
      and upd = "text_update 5 ''/broadcast''" and w = "world_of demo_store []",
      THEN conjunct1, THEN mp, OF n]
  note b = broadcast_authorization_gate [where e = demo_env
      and upd = "button_update 5 ''broadcast_confirm:yes''"
      and w = "world_of demo_store [(''pending_broadcast'', Some ''hi'')]",
      THEN conjunct2, THEN mp, OF q]
  from a b g show ?thesis
    by (simp add: text_update_def world_of_def)
qed

subsection \<open>What the handlers do to the profiles\<close>

text \<open>The store after each handler, in terms of the store operations.\<close>

lemma notify_admins_frame:
  "store (notify_admins e t admins w) = store w
   \<and> user_data (notify_admins e t admins w) = user_data w"
  by (induction admins arbitrary: w) simp_all

lemma start_store:
  "store (snd (start e upd w)) =
     (case effective_user upd of
        None \<Rightarrow> store w
      | Some user \<Rightarrow>
          if name (fst (get_or_create_profile e (uid user) (store w))) = None \<and> full_name user \<noteq> []
          then update_profile_name e (uid user) (full_name user)
                 (snd (get_or_create_profile e (uid user) (store w)))
          else snd (get_or_create_profile e (uid user) (store w)))"
  by (simp add: start_def reply_text_def Let_def case_prod_beta split: option.splits)

lemma profile_command_store:
  "store (snd (profile_command e upd w)) =
     (case effective_user upd of
        None \<Rightarrow> store w
      | Some user \<Rightarrow> snd (get_or_create_profile e (uid user) (store w)))"
  by (simp add: profile_command_def reply_text_def Let_def case_prod_beta split: option.splits)

lemma register_start_store:
  "store (snd (register_start e upd w)) =
     (case effective_user upd of
        None \<Rightarrow> store w
      | Some user \<Rightarrow> snd (get_or_create_profile e (uid user) (store w)))"
  by (simp add: register_start_def reply_text_def Let_def case_prod_beta split: option.splits)

lemma button_main_menu_store:
  "store (snd (button_main_menu e upd w)) = store w
   \<or> (\<exists>v. store (snd (button_main_menu e upd w)) = snd (get_or_create_profile e v (store w)))"
  by (auto simp: button_main_menu_def Let_def case_prod_beta split: option.splits)

lemma register_name_store:
  "store (snd (register_name e upd w)) = store w
   \<or> (\<exists>v n. store (snd (register_name e upd w)) = update_profile_name e v n (store w))"
  by (auto simp: register_name_def Let_def split: option.splits)

lemma register_age_store:
  "store (snd (register_age e upd w)) = store w
   \<or> (\<exists>v a. store (snd (register_age e upd w)) = update_profile_age e v a (store w))"
  by (auto simp: register_age_def Let_def get_or_create_profile_after_age split: option.splits)

lemma feedback_decision_profiles:
  "profiles (store (snd (feedback_decision e upd w))) = profiles (store w)"
  by (simp add: feedback_decision_def Let_def notify_admins_frame add_feedback_def
      split: option.splits)

lemma broadcast_decision_store:
  "store (snd (broadcast_decision e upd w)) = store w"
  using broadcast_loop_frame [where e = e and targets = "map fst (profiles (store w))"
      and sent = 0 and failed = 0 and w = "emit AnswerQuery w"]
  by (simp add: broadcast_decision_def Let_def case_prod_beta split: option.splits)

lemma plain_handlers_store:
  "store (snd (help_command e upd w)) = store w"
  "store (snd (echo_command e upd w)) = store w"
  "store (snd (admin_show_feedback e upd w)) = store w"
  "store (snd (register_cancel e upd w)) = store w"
  "store (snd (feedback_start e upd w)) = store w"
  "store (snd (feedback_text e upd w)) = store w"
  "store (snd (feedback_cancel e upd w)) = store w"
  "store (snd (broadcast_start e upd w)) = store w"
  "store (snd (broadcast_text e upd w)) = store w"
  "store (snd (broadcast_cancel e upd w)) = store w"
  "store (snd (utility_menu_handler e upd w)) = store w"
  "store (snd (utility_text_handler e upd w)) = store w"
  "store (snd (unknown_command e upd w)) = store w"
  "store (snd (error_handler e obj w)) = store w"
  by (simp_all add: help_command_def echo_command_def admin_show_feedback_def register_cancel_def
      feedback_start_def feedback_text_def feedback_cancel_def broadcast_start_def
      broadcast_text_def broadcast_cancel_def utility_menu_handler_def utility_text_handler_def
      unknown_command_def error_handler_def reply_text_def Let_def split: option.splits)


lemma run_handler_keys_ext:
  "\<exists>ks. map fst (profiles (store (snd (run_handler h e upd w)))) = map fst (profiles (store w)) @ ks"
proof (cases h)
  case H_start
  show ?thesis
  proof (cases "effective_user upd")
    case None
    with H_start show ?thesis by (simp add: start_store)
  next
    case (Some user)
    obtain ks where a: "map fst (profiles (snd (get_or_create_profile e (uid user) (store w))))
                        = map fst (profiles (store w)) @ ks"
      using get_or_create_profile_keys_ext by blast
    obtain ks' where b: "map fst (profiles (update_profile_name e (uid user) (full_name user)
                                   (snd (get_or_create_profile e (uid user) (store w)))))
                        = map fst (profiles (snd (get_or_create_profile e (uid user) (store w)))) @ ks'"
      using update_profile_keys_ext(1) by blast
    from H_start Some a b show ?thesis
      by (simp add: start_store)
  qed
next
  case H_profile_command
  then show ?thesis
    using get_or_create_profile_keys_ext
    by (simp add: profile_command_store split: option.splits)
next
  case H_register_start
  then show ?thesis
    using get_or_create_profile_keys_ext
    by (simp add: register_start_store split: option.splits)
next
  case H_button_main_menu
  then show ?thesis
    using button_main_menu_store [of e upd w] get_or_create_profile_keys_ext [of e _ "store w"]
    by auto
next
  case H_register_name
  then show ?thesis
    using register_name_store [of e upd w] update_profile_keys_ext(1) [of e _ _ "store w"]
    by auto
next
  case H_register_age
  then show ?thesis
    using register_age_store [of e upd w] update_profile_keys_ext(2) [of e _ _ "store w"]
    by auto
next
  case H_feedback_decision
  then show ?thesis by (simp add: feedback_decision_profiles)
next
  case H_broadcast_decision
  then show ?thesis by (simp add: broadcast_decision_store)
qed (simp_all add: plain_handlers_store)

lemma run_handler_profile_kept:
  assumes old: "map_of (profiles (store w)) u = Some p"
  shows "\<exists>p'. map_of (profiles (store (snd (run_handler h e upd w)))) u = Some p'
            \<and> user_id p' = user_id p \<and> created_at p' = created_at p
            \<and> (h \<noteq> H_register_age \<longrightarrow> age p' = age p)
            \<and> (h \<noteq> H_register_name \<and> h \<noteq> H_start \<longrightarrow> name p' = name p)
            \<and> (h = H_start \<and> name p' \<noteq> name p \<longrightarrow>
                 name p = None
                 \<and> (\<exists>user. effective_user upd = Some user \<and> uid user = u
                            \<and> full_name user \<noteq> [] \<and> name p' = Some (full_name user)))"
proof (cases h)
  case H_start
  show ?thesis
  proof (cases "effective_user upd")
    case None
    with H_start old show ?thesis by (simp add: start_store)
  next
    case (Some user)
    note g = get_or_create_profile_kept [OF old, of e "uid user"]
    show ?thesis
    proof (cases "name (fst (get_or_create_profile e (uid user) (store w))) = None
                  \<and> full_name user \<noteq> []")
      case True
      have f: "u = uid user \<Longrightarrow> name p = None"
        using True get_or_create_profile_found [OF old, of e] by auto
      from H_start Some True f show ?thesis
        by (auto simp: start_store update_profile_name_kept [OF g])
    next
      case False
      with H_start Some g show ?thesis
        by (auto simp: start_store)
    qed
  qed
next
  case H_profile_command
  then show ?thesis
    using get_or_create_profile_kept [OF old, of e]
    by (simp add: profile_command_store old split: option.splits)
next
  case H_register_start
  then show ?thesis
    using get_or_create_profile_kept [OF old, of e]
    by (simp add: register_start_store old split: option.splits)
next
  case H_button_main_menu
  then show ?thesis
    using button_main_menu_store [of e upd w] get_or_create_profile_kept [OF old, of e] old
    by auto
next
  case H_register_name
  then show ?thesis
    using register_name_store [of e upd w] update_profile_name_kept [OF old, of e] old
    by auto
next
  case H_register_age
  then show ?thesis
    using register_age_store [of e upd w] update_profile_age_kept [OF old, of e] old
    by auto
next
  case H_feedback_decision
  then show ?thesis using old by (simp add: feedback_decision_profiles)
next
  case H_broadcast_decision
  then show ?thesis using old by (simp add: broadcast_decision_store)
qed (simp_all add: plain_handlers_store old)

text \<open>\<^verbatim>\<open>start\<close> on the profile of its own user, when that profile has no name yet.\<close>

lemma start_names_unnamed_profile:
  assumes "effective_user upd = Some user" and "map_of (profiles (store w)) (uid user) = Some p"
    and "name p = None" and "full_name user \<noteq> []"
  shows "map_of (profiles (store (snd (start e upd w)))) (uid user)
           = Some (p\<lparr>name := Some (full_name user)\<rparr>)"
proof -
  have f: "fst (get_or_create_profile e (uid user) (store w)) = p"
    using assms(2) by (rule get_or_create_profile_found)
  have g: "map_of (profiles (snd (get_or_create_profile e (uid user) (store w)))) (uid user) = Some p"
    using assms(2) by (rule get_or_create_profile_kept)
  show ?thesis
    using assms(1,3,4) f update_profile_name_kept [OF g, of e "uid user" "full_name user"]
    by (simp add: start_store)
qed

text \<open>
  C5, as stated, fails: \<^verbatim>\<open>start\<close> is not a registration step, and on an existing
  profile whose name is \<^verbatim>\<open>None\<close> it sets the name to the user's full name.
\<close>

theorem start_names_existing_profile_counterexample:
  "map_of (profiles (store (world_of demo_store []))) 1
     = Some \<lparr>user_id = 1, name = None, age = None, created_at = 0\<rparr>
   \<and> map_of (profiles (store (snd (run_handler H_start demo_env (text_update 1 ''/start'')
                                      (world_of demo_store []))))) 1
     = Some \<lparr>user_id = 1, name = Some ''Alice'', age = None, created_at = 0\<rparr>"
  by (simp add: start_store text_update_def demo_user_def world_of_def demo_store_def
      new_profile_def update_profile_name_lookup get_or_create_profile_lookup
      get_or_create_profile_fst)

text \<open>
  C5, amended. No handler removes a profile: the keys of \<^verbatim>\<open>profiles\<close> after a handler
  are the keys before it, in the same order, followed by the new ones. For every profile
  that exists before a handler runs, its id and creation time are never changed; its
  age is changed by no handler other than \<^verbatim>\<open>register_age\<close>; its name is changed by no
  handler other than \<^verbatim>\<open>register_name\<close> and \<^verbatim>\<open>start\<close>. \<^verbatim>\<open>start\<close> changes a name
  only on the profile of the user of the update, only when the stored name is
  \<^verbatim>\<open>None\<close> and the user's full name is not empty, and then to that full name; and
  whenever these conditions hold it does set the name.
\<close>

theorem profile_fields_frame:
  "(\<exists>ks. map fst (profiles (store (snd (run_handler h e upd w))))
           = map fst (profiles (store w)) @ ks)
   \<and> (\<forall>u p. map_of (profiles (store w)) u = Some p \<longrightarrow>
         (\<exists>p'. map_of (profiles (store (snd (run_handler h e upd w)))) u = Some p'
            \<and> user_id p' = user_id p \<and> created_at p' = created_at p
            \<and> (h \<noteq> H_register_age \<longrightarrow> age p' = age p)
            \<and> (h \<noteq> H_register_name \<and> h \<noteq> H_start \<longrightarrow> name p' = name p)
            \<and> (h = H_start \<and> name p' \<noteq> name p \<longrightarrow>
                 name p = None
                 \<and> (\<exists>user. effective_user upd = Some user \<and> uid user = u
                            \<and> full_name user \<noteq> [] \<and> name p' = Some (full_name user)))
            \<and> (\<forall>user. h = H_start \<and> effective_user upd = Some user \<and> uid user = u
                        \<and> name p = None \<and> full_name user \<noteq> [] \<longrightarrow>
                   name p' = Some (full_name user))))"
proof (intro conjI allI impI)
  show "\<exists>ks. map fst (profiles (store (snd (run_handler h e upd w))))
           = map fst (profiles (store w)) @ ks"
    by (rule run_handler_keys_ext)
next
  fix u p
  assume old: "map_of (profiles (store w)) u = Some p"
  from run_handler_profile_kept [OF old, of h e upd]
  obtain p' where p': "map_of (profiles (store (snd (run_handler h e upd w)))) u = Some p'"
    and rest: "user_id p' = user_id p" "created_at p' = created_at p"
      "h \<noteq> H_register_age \<longrightarrow> age p' = age p"
      "h \<noteq> H_register_name \<and> h \<noteq> H_start \<longrightarrow> name p' = name p"
      "h = H_start \<and> name p' \<noteq> name p \<longrightarrow>
         name p = None
         \<and> (\<exists>user. effective_user upd = Some user \<and> uid user = u
                    \<and> full_name user \<noteq> [] \<and> name p' = Some (full_name user))"
    by blast
  have named: "name p' = Some (full_name user)"
    if "h = H_start \<and> effective_user upd = Some user \<and> uid user = u
        \<and> name p = None \<and> full_name user \<noteq> []" for user
  proof -
    from that old have "map_of (profiles (store (snd (start e upd w)))) u
                          = Some (p\<lparr>name := Some (full_name user)\<rparr>)"
      using start_names_unnamed_profile [of upd user w p e] by auto
    with p' that show ?thesis by auto
  qed
  show "\<exists>p'. map_of (profiles (store (snd (run_handler h e upd w)))) u = Some p'
            \<and> user_id p' = user_id p \<and> created_at p' = created_at p
            \<and> (h \<noteq> H_register_age \<longrightarrow> age p' = age p)
            \<and> (h \<noteq> H_register_name \<and> h \<noteq> H_start \<longrightarrow> name p' = name p)
            \<and> (h = H_start \<and> name p' \<noteq> name p \<longrightarrow>
                 name p = None
                 \<and> (\<exists>user. effective_user upd = Some user \<and> uid user = u
                            \<and> full_name user \<noteq> [] \<and> name p' = Some (full_name user)))
            \<and> (\<forall>user. h = H_start \<and> effective_user upd = Some user \<and> uid user = u
                        \<and> name p = None \<and> full_name user \<noteq> [] \<longrightarrow>
                   name p' = Some (full_name user))"
    using p' rest named by blast
qed

theorem profile_fields_frame_witness:
  "(\<exists>p'. map_of (profiles (store (snd (run_handler H_start demo_env (text_update 1 ''/start'')
                                          (world_of named_store []))))) 1 = Some p'
          \<and> name p' = Some ''Alice'' \<and> age p' = None)
   \<and> (\<exists>p'. map_of (profiles (store (snd (run_handler H_start demo_env (text_update 2 ''/start'')
                                            (world_of named_store []))))) 2 = Some p'
            \<and> name p' = Some ''Bob'' \<and> age p' = Some 30)
   \<and> (\<exists>p'. map_of (profiles (store (snd (run_handler H_register_age demo_env (text_update 2 ''31'')
                                            (world_of named_store []))))) 2 = Some p'
            \<and> name p' = Some ''Bob'')"
proof -
  have old1: "map_of (profiles (store (world_of named_store []))) 1
                = Some \<lparr>user_id = 1, name = None, age = None, created_at = 0\<rparr>"
    and old2: "map_of (profiles (store (world_of named_store []))) 2
                = Some \<lparr>user_id = 2, name = Some ''Bob'', age = Some 30, created_at = 0\<rparr>"
    by (simp_all add: world_of_def named_store_def new_profile_def)
  note a = profile_fields_frame [where h = H_start and e = demo_env
      and upd = "text_update 1 ''/start''" and w = "world_of named_store []",
      THEN conjunct2, THEN spec, THEN spec, THEN mp, OF old1]
  note b = profile_fields_frame [where h = H_start and e = demo_env
      and upd = "text_update 2 ''/start''" and w = "world_of named_store []",
      THEN conjunct2, THEN spec, THEN spec, THEN mp, OF old2]
  note c = profile_fields_frame [where h = H_register_age and e = demo_env
      and upd = "text_update 2 ''31''" and w = "world_of named_store []",
      THEN conjunct2, THEN spec, THEN spec, THEN mp, OF old2]
  have u: "effective_user (text_update 1 ''/start'') = Some (demo_user 1)"
    "uid (demo_user 1) = 1" "full_name (demo_user 1) = ''Alice''"
    by (simp_all add: text_update_def demo_user_def)
  from a u have "\<exists>p'. map_of (profiles (store (snd (run_handler H_start demo_env
                          (text_update 1 ''/start'') (world_of named_store []))))) 1 = Some p'
          \<and> name p' = Some ''Alice'' \<and> age p' = None"
    by fastforce
  moreover from b have "\<exists>p'. map_of (profiles (store (snd (run_handler H_start demo_env
                          (text_update 2 ''/start'') (world_of named_store []))))) 2 = Some p'
            \<and> name p' = Some ''Bob'' \<and> age p' = Some 30"
    by fastforce
  moreover from c have "\<exists>p'. map_of (profiles (store (snd (run_handler H_register_age demo_env
                          (text_update 2 ''31'') (world_of named_store []))))) 2 = Some p'
            \<and> name p' = Some ''Bob''"
    by fastforce
  ultimately show ?thesis
    by (intro conjI)
qed

subsection \<open>Utility echo\<close>

text \<open>
  C1, as stated, fails: after the echo selection and a first message \<open>ping\<close>, the flag is
  still \<open>echo\<close>, and a second message \<open>pong\<close> with no new selection is echoed as well.
\<close>

theorem echo_second_message_counterexample:
  "get_user_data
     (snd (utility_text_handler demo_env (text_update 5 ''ping'')
        (snd (utility_menu_handler demo_env (button_update 5 ''util_echo'')
                (world_of empty_store [])))))
     ''utility_mode'' = Some ''echo''
   \<and> outbox
     (snd (utility_text_handler demo_env (text_update 5 ''pong'')
        (snd (utility_text_handler demo_env (text_update 5 ''ping'')
           (snd (utility_menu_handler demo_env (button_update 5 ''util_echo'')
                   (world_of empty_store [])))))))
     = [AnswerQuery, EditMessageText ''Send text and I will echo it.'' None,
        ReplyText ''ping'' None, ReplyText ''pong'' None]"
  by (simp add: utility_text_handler_def utility_menu_handler_def button_update_def text_update_def
      world_of_def Let_def)

text \<open>With the flag set, the handler echoes the text and changes nothing else.\<close>

lemma utility_text_handler_echo:
  assumes "get_user_data w ''utility_mode'' = Some ''echo''" and "message upd = Some m"
  shows "utility_text_handler e upd w =
           (Returned None, w\<lparr>outbox := outbox w @ [ReplyText (msg_text m) None]\<rparr>)"
  using assms by (simp add: utility_text_handler_def emit_def)

text \<open>What the two menu handlers do to a set echo flag.\<close>

lemma utility_menu_handler_mode:
  assumes "get_user_data w ''utility_mode'' = Some ''echo''"
  shows "get_user_data (snd (utility_menu_handler e upd w)) ''utility_mode'' =
           (if resets_utility_mode H_utility_menu_handler upd then None else Some ''echo'')"
proof (cases "callback_query upd")
  case None
  then show ?thesis
    using assms by (simp add: utility_menu_handler_def resets_utility_mode_def)
next
  case (Some q)
  define d where "d = (case data q of None \<Rightarrow> [] | Some x \<Rightarrow> x)"
  have r: "resets_utility_mode H_utility_menu_handler upd
           = (d = ''util_back'' \<or> d = ''util_dice'' \<or> d = ''util_random'')"
    using Some by (simp add: resets_utility_mode_def d_def Let_def)
  have h: "utility_menu_handler e upd w =
     (let w1 = emit AnswerQuery w
      in if d = ''util_back''
         then (Returned None,
               set_user_data ''utility_mode'' None
                 (edit_message_text ''Main menu:''
                    (Some (build_main_menu_keyboard (is_authorized e (id_of (from_user q))))) w1))
         else if d = ''util_echo''
         then (Returned None,
               edit_message_text ''Send text and I will echo it.'' None
                 (set_user_data ''utility_mode'' (Some ''echo'') w1))
         else if d = ''util_dice''
         then (Returned None,
               set_user_data ''utility_mode'' None
                 (edit_message_text (''Dice rolled: '' @ str_int (randint e 1 6)) None w1))
         else if d = ''util_random''
         then (Returned None,
               set_user_data ''utility_mode'' None
                 (edit_message_text (''Random number: '' @ str_int (randint e 0 100)) None w1))
         else (Returned None, w1))"
    using Some unfolding utility_menu_handler_def d_def by (simp add: Let_def)
  consider (to_menu) "d = ''util_back''" | (echo) "d = ''util_echo''" | (dice) "d = ''util_dice''"
    | (random) "d = ''util_random''"
    | (other) "d \<noteq> ''util_back''" "d \<noteq> ''util_echo''" "d \<noteq> ''util_dice''" "d \<noteq> ''util_random''"
    by blast
  then show ?thesis
  proof cases
    case to_menu
    then show ?thesis unfolding h r by (simp add: Let_def)
  next
    case echo
    then show ?thesis unfolding h r by (simp add: Let_def)
  next
    case dice
    then show ?thesis unfolding h r by (simp add: Let_def)
  next
    case random
    then show ?thesis unfolding h r by (simp add: Let_def)
  next
    case other
    then show ?thesis unfolding h r using assms by (simp add: Let_def)
  qed
qed


lemma button_main_menu_mode:
  assumes "get_user_data w ''utility_mode'' = Some ''echo''"
  shows "get_user_data (snd (button_main_menu e upd w)) ''utility_mode'' =
           (if resets_utility_mode H_button_main_menu upd then None else Some ''echo'')"
proof (cases "callback_query upd")
  case None
  then show ?thesis
    using assms by (simp add: button_main_menu_def resets_utility_mode_def)
next
  case (Some q)
  define d where "d = (case data q of None \<Rightarrow> [] | Some x \<Rightarrow> x)"
  have r: "resets_utility_mode H_button_main_menu upd = (d = ''menu_utilities'')"
    using Some by (simp add: resets_utility_mode_def d_def Let_def)
  have h: "button_main_menu e upd w =
     (let w1 = emit AnswerQuery w
      in if d = ''menu_profile''
         then (case from_user q of
                 None \<Rightarrow> (Raised AttributeError, w1)
               | Some u \<Rightarrow>
                   (Returned None,
                    edit_message_text
                      (format_profile e (fst (get_or_create_profile e (uid u) (store w1)))) None
                      (w1\<lparr>store := snd (get_or_create_profile e (uid u) (store w1))\<rparr>)))
         else if d = ''menu_utilities''
         then (Returned None,
               set_user_data ''utility_mode'' None
                 (edit_message_text ''Choose a utility:'' (Some build_utility_menu_keyboard) w1))
         else if d = ''menu_feedback''
         then (Returned None,
               edit_message_text ''Use /feedback to send feedback message to admins.'' None w1)
         else if d = ''menu_admin_broadcast''
         then (if \<not> is_authorized e (id_of (from_user q))
               then (Returned None,
                     edit_message_text ''You are not authorized for admin actions.'' None w1)
               else (Returned None,
                     edit_message_text ''Use /broadcast to send message to all known users.''
                       None w1))
         else (Returned None, w1))"
    using Some unfolding button_main_menu_def d_def
    by (simp add: Let_def case_prod_beta split: option.splits)
  consider (profile) "d = ''menu_profile''" | (utilities) "d = ''menu_utilities''"
    | (other) "d \<noteq> ''menu_profile''" "d \<noteq> ''menu_utilities''"
    by blast
  then show ?thesis
  proof cases
    case profile
    then show ?thesis unfolding h r using assms by (simp add: Let_def split: option.splits)
  next
    case utilities
    then show ?thesis unfolding h r by (simp add: Let_def)
  next
    case other
    then show ?thesis unfolding h r using assms by (simp add: Let_def)
  qed
qed

text \<open>Every other handler leaves \<^verbatim>\<open>utility_mode\<close> as it is.\<close>

lemma notify_admins_user_data:
  "user_data (notify_admins e t admins w) = user_data w"
  by (simp add: notify_admins_frame)

lemma reply_handlers_user_data:
  "user_data (snd (help_command e upd w)) = user_data w"
  "user_data (snd (echo_command e upd w)) = user_data w"
  "user_data (snd (admin_show_feedback e upd w)) = user_data w"
  "user_data (snd (register_cancel e upd w)) = user_data w"
  "user_data (snd (feedback_start e upd w)) = user_data w"
  "user_data (snd (broadcast_start e upd w)) = user_data w"
  "user_data (snd (unknown_command e upd w)) = user_data w"
proof -
  have r: "user_data (snd (case reply_text upd s kb w of
                             Inl err \<Rightarrow> (Raised err, w)
                           | Inr w1 \<Rightarrow> (Returned x, w1))) = user_data w" for s kb x
    by (simp add: reply_text_def split: option.splits)
  show "user_data (snd (help_command e upd w)) = user_data w"
    unfolding help_command_def Let_def by (rule r)
  show "user_data (snd (echo_command e upd w)) = user_data w"
    unfolding echo_command_def by (rule r)
  show "user_data (snd (admin_show_feedback e upd w)) = user_data w"
    unfolding admin_show_feedback_def Let_def by (rule r)
  show "user_data (snd (register_cancel e upd w)) = user_data w"
    unfolding register_cancel_def by (rule r)
  show "user_data (snd (feedback_start e upd w)) = user_data w"
    unfolding feedback_start_def by (rule r)
  show "user_data (snd (broadcast_start e upd w)) = user_data w"
    unfolding broadcast_start_def by (simp add: r)
  show "user_data (snd (unknown_command e upd w)) = user_data w"
    unfolding unknown_command_def by (rule r)
qed


lemma quiet_handlers_user_data:
  "user_data (snd (utility_text_handler e upd w)) = user_data w"
  "user_data (snd (error_handler e obj w)) = user_data w"
  "user_data (snd (register_name e upd w)) = user_data w"
  "user_data (snd (register_age e upd w)) = user_data w"
proof -
  show "user_data (snd (utility_text_handler e upd w)) = user_data w"
    by (simp add: utility_text_handler_def Let_def split: option.splits)
  show "user_data (snd (error_handler e obj w)) = user_data w"
    by (simp add: error_handler_def Let_def split: option.splits)
  show "user_data (snd (register_name e upd w)) = user_data w"
    by (simp add: register_name_def Let_def split: option.splits)
  show "user_data (snd (register_age e upd w)) = user_data w"
    by (simp add: register_age_def Let_def case_prod_beta split: option.splits)
qed

lemma profile_handlers_user_data:
  "user_data (snd (start e upd w)) = user_data w"
  "user_data (snd (profile_command e upd w)) = user_data w"
  "user_data (snd (register_start e upd w)) = user_data w"
proof -
  have r: "user_data (snd (case reply_text upd s kb w1 of
                             Inl err \<Rightarrow> (Raised err, w1)
                           | Inr w2 \<Rightarrow> (Returned x, w2))) = user_data w1" for s kb x w1
    by (simp add: reply_text_def split: option.splits)
  show "user_data (snd (start e upd w)) = user_data w"
    unfolding start_def Let_def case_prod_beta by (simp add: r split: option.splits)
  show "user_data (snd (profile_command e upd w)) = user_data w"
    unfolding profile_command_def Let_def case_prod_beta by (simp add: r split: option.splits)
  show "user_data (snd (register_start e upd w)) = user_data w"
    unfolding register_start_def Let_def case_prod_beta by (simp add: r split: option.splits)
qed

lemma get_user_data_cong:
  "user_data w = user_data w' \<Longrightarrow> get_user_data w k = get_user_data w' k"
  by (simp add: get_user_data_def)

lemma flow_handlers_utility_mode:
  "get_user_data (snd (feedback_text e upd w)) ''utility_mode'' = get_user_data w ''utility_mode''"
  "get_user_data (snd (feedback_cancel e upd w)) ''utility_mode'' = get_user_data w ''utility_mode''"
  "get_user_data (snd (broadcast_text e upd w)) ''utility_mode'' = get_user_data w ''utility_mode''"
  "get_user_data (snd (broadcast_cancel e upd w)) ''utility_mode'' = get_user_data w ''utility_mode''"
  "get_user_data (snd (feedback_decision e upd w)) ''utility_mode'' = get_user_data w ''utility_mode''"
  "get_user_data (snd (broadcast_decision e upd w)) ''utility_mode'' = get_user_data w ''utility_mode''"
proof -
  show "get_user_data (snd (feedback_text e upd w)) ''utility_mode'' = get_user_data w ''utility_mode''"
    by (simp add: feedback_text_def Let_def split: option.splits)
  show "get_user_data (snd (feedback_cancel e upd w)) ''utility_mode'' = get_user_data w ''utility_mode''"
    by (simp add: feedback_cancel_def reply_text_def split: option.splits)
  show "get_user_data (snd (broadcast_text e upd w)) ''utility_mode'' = get_user_data w ''utility_mode''"
    by (simp add: broadcast_text_def Let_def split: option.splits)
  show "get_user_data (snd (broadcast_cancel e upd w)) ''utility_mode'' = get_user_data w ''utility_mode''"
    by (simp add: broadcast_cancel_def reply_text_def split: option.splits)
  show "get_user_data (snd (feedback_decision e upd w)) ''utility_mode'' = get_user_data w ''utility_mode''"
    by (simp add: feedback_decision_def Let_def
        get_user_data_cong [OF notify_admins_user_data] split: option.splits)
  have l: "get_user_data (snd (snd (broadcast_loop e t targets (0, 0, w1)))) k = get_user_data w1 k"
    for t targets w1 k
    by (rule get_user_data_cong) (simp add: broadcast_loop_frame)
  show "get_user_data (snd (broadcast_decision e upd w)) ''utility_mode'' = get_user_data w ''utility_mode''"
    by (simp add: broadcast_decision_def Let_def case_prod_beta l split: option.splits)
qed

lemma run_handler_utility_mode:
  assumes "get_user_data w ''utility_mode'' = Some ''echo''"
  shows "get_user_data (snd (run_handler h e upd w)) ''utility_mode'' =
           (if resets_utility_mode h upd then None else Some ''echo'')"
proof -
  have other: "\<not> resets_utility_mode h' upd"
    if "h' \<noteq> H_utility_menu_handler" "h' \<noteq> H_button_main_menu" for h'
    using that by (simp add: resets_utility_mode_def Let_def split: option.splits)
  have same: "get_user_data w' ''utility_mode'' = Some ''echo''" if "user_data w' = user_data w" for w'
    using assms get_user_data_cong [OF that] by simp
  show ?thesis
  proof (cases h)
    case H_utility_menu_handler
    then show ?thesis using utility_menu_handler_mode [OF assms] by simp
  next
    case H_button_main_menu
    then show ?thesis using button_main_menu_mode [OF assms] by simp
  qed (simp_all add: other assms flow_handlers_utility_mode
      same [OF reply_handlers_user_data(1)] same [OF reply_handlers_user_data(2)]
      same [OF reply_handlers_user_data(3)] same [OF reply_handlers_user_data(4)]
      same [OF reply_handlers_user_data(5)] same [OF reply_handlers_user_data(6)]
      same [OF reply_handlers_user_data(7)]
      same [OF quiet_handlers_user_data(1)] same [OF quiet_handlers_user_data(2)]
      same [OF quiet_handlers_user_data(3)] same [OF quiet_handlers_user_data(4)]
      same [OF profile_handlers_user_data(1)] same [OF profile_handlers_user_data(2)]
      same [OF profile_handlers_user_data(3)])
qed

lemma utility_text_handler_reply:
  assumes "message upd = Some m"
  shows "utility_text_handler e upd w =
           (Returned None,
            w\<lparr>outbox := outbox w @
                 [ReplyText (if get_user_data w ''utility_mode'' = Some ''echo''
                             then msg_text m
                             else ''I do not understand. Use /help or /start.'') None]\<rparr>)"
  using assms by (simp add: utility_text_handler_def emit_def)

lemma run_events_keep_echo:
  assumes "get_user_data w ''utility_mode'' = Some ''echo''"
    and "\<forall>ev \<in> set evs. \<not> resets_utility_mode (fst ev) (snd ev)"
  shows "get_user_data (run_events e evs w) ''utility_mode'' = Some ''echo''"
  using assms
proof (induction evs arbitrary: w)
  case Nil
  then show ?case by simp
next
  case (Cons ev evs)
  obtain h upd where ev: "ev = (h, upd)" by (cases ev)
  with Cons.prems have "\<not> resets_utility_mode h upd" by simp
  then have "get_user_data (snd (run_handler h e upd w)) ''utility_mode'' = Some ''echo''"
    using run_handler_utility_mode [OF Cons.prems(1)] by simp
  then show ?case
    using Cons.IH Cons.prems(2) ev by simp
qed

lemma run_texts_echo:
  assumes "get_user_data w ''utility_mode'' = Some ''echo''"
    and "\<forall>u \<in> set upds. message u \<noteq> None"
  shows "run_texts e upds w =
           w\<lparr>outbox := outbox w @ map (\<lambda>u. ReplyText (msg_text (the (message u))) None) upds\<rparr>"
  using assms
proof (induction upds arbitrary: w)
  case Nil
  then show ?case by simp
next
  case (Cons u us)
  from Cons.prems obtain m where m: "message u = Some m" by auto
  let ?w2 = "w\<lparr>outbox := outbox w @ [ReplyText (msg_text m) None]\<rparr>"
  have step: "utility_text_handler e u w = (Returned None, ?w2)"
    using Cons.prems(1) m by (rule utility_text_handler_echo)
  have mode: "get_user_data ?w2 ''utility_mode'' = Some ''echo''"
    using Cons.prems(1) by (simp add: get_user_data_def)
  have "run_texts e us ?w2
          = ?w2\<lparr>outbox := outbox ?w2 @ map (\<lambda>u. ReplyText (msg_text (the (message u))) None) us\<rparr>"
    using Cons.prems(2) mode by (intro Cons.IH) auto
  then show ?case
    using step m by simp
qed

text \<open>
  C1, amended. The echo selection sets the flag. \<^verbatim>\<open>utility_text_handler\<close> answers a
  message with exactly its text when the flag is set and with the guidance reply
  otherwise, and never changes the user's data: the next message after the selection is
  echoed, and so is every later one for as long as the flag is set. A handler call
  changes a set flag only when it is the utility menu on back, dice or random, or the
  main menu on the utilities button, and then it resets it; after any sequence of other
  calls the flag is still set. Messages handled in a row while the flag is set are all
  echoed, in order.
\<close>

theorem echo_stays_until_reset:
  "(callback_query upd = Some q \<and> data q = Some ''util_echo'' \<longrightarrow>
      fst (utility_menu_handler e upd w) = Returned None
      \<and> get_user_data (snd (utility_menu_handler e upd w)) ''utility_mode'' = Some ''echo'')
   \<and> (message upd = Some m \<longrightarrow>
        utility_text_handler e upd w =
          (Returned None,
           w\<lparr>outbox := outbox w @
                [ReplyText (if get_user_data w ''utility_mode'' = Some ''echo''
                            then msg_text m
                            else ''I do not understand. Use /help or /start.'') None]\<rparr>))
   \<and> (get_user_data w ''utility_mode'' = Some ''echo'' \<longrightarrow>
        get_user_data (snd (run_handler h e upd w)) ''utility_mode'' =
          (if resets_utility_mode h upd then None else Some ''echo''))
   \<and> (get_user_data w ''utility_mode'' = Some ''echo''
        \<and> (\<forall>ev \<in> set evs. \<not> resets_utility_mode (fst ev) (snd ev)) \<longrightarrow>
        get_user_data (run_events e evs w) ''utility_mode'' = Some ''echo'')
   \<and> (get_user_data w ''utility_mode'' = Some ''echo''
        \<and> (\<forall>u \<in> set upds. message u \<noteq> None) \<longrightarrow>
        run_texts e upds w =
          w\<lparr>outbox := outbox w @ map (\<lambda>u. ReplyText (msg_text (the (message u))) None) upds\<rparr>)"
proof (intro conjI impI)
  assume a: "callback_query upd = Some q \<and> data q = Some ''util_echo''"
  then show "fst (utility_menu_handler e upd w) = Returned None"
    by (simp add: utility_menu_handler_def Let_def)
  from a show "get_user_data (snd (utility_menu_handler e upd w)) ''utility_mode'' = Some ''echo''"
    by (simp add: utility_menu_handler_def Let_def)
next
  assume "message upd = Some m"
  then show "utility_text_handler e upd w =
          (Returned None,
           w\<lparr>outbox := outbox w @
                [ReplyText (if get_user_data w ''utility_mode'' = Some ''echo''
                            then msg_text m
                            else ''I do not understand. Use /help or /start.'') None]\<rparr>)"
    by (rule utility_text_handler_reply)
next
  assume "get_user_data w ''utility_mode'' = Some ''echo''"
  then show "get_user_data (snd (run_handler h e upd w)) ''utility_mode'' =
          (if resets_utility_mode h upd then None else Some ''echo'')"
    by (rule run_handler_utility_mode)
next
  assume "get_user_data w ''utility_mode'' = Some ''echo''
        \<and> (\<forall>ev \<in> set evs. \<not> resets_utility_mode (fst ev) (snd ev))"
  then show "get_user_data (run_events e evs w) ''utility_mode'' = Some ''echo''"
    using run_events_keep_echo by blast
next
  assume "get_user_data w ''utility_mode'' = Some ''echo''
        \<and> (\<forall>u \<in> set upds. message u \<noteq> None)"
  then show "run_texts e upds w =
          w\<lparr>outbox := outbox w @ map (\<lambda>u. ReplyText (msg_text (the (message u))) None) upds\<rparr>"
    using run_texts_echo by blast
qed

theorem echo_stays_until_reset_witness:
  "get_user_data
     (snd (utility_menu_handler demo_env (button_update 5 ''util_echo'') (world_of empty_store [])))
     ''utility_mode'' = Some ''echo''
   \<and> outbox (run_texts demo_env [text_update 5 ''ping'', text_update 5 ''pong'']
               (snd (utility_menu_handler demo_env (button_update 5 ''util_echo'')
                       (world_of empty_store []))))
     = [AnswerQuery, EditMessageText ''Send text and I will echo it.'' None,
        ReplyText ''ping'' None, ReplyText ''pong'' None]
   \<and> get_user_data
       (snd (run_handler H_utility_menu_handler demo_env (button_update 5 ''util_dice'')
               (snd (utility_menu_handler demo_env (button_update 5 ''util_echo'')
                       (world_of empty_store [])))))
       ''utility_mode'' = None
   \<and> outbox
       (snd (utility_text_handler demo_env (text_update 5 ''ping'')
          (snd (run_handler H_utility_menu_handler demo_env (button_update 5 ''util_dice'')
                  (snd (utility_menu_handler demo_env (button_update 5 ''util_echo'')
                          (world_of empty_store [])))))))
     = [AnswerQuery, EditMessageText ''Send text and I will echo it.'' None,
        AnswerQuery, EditMessageText ''Dice rolled: 1'' None,
        ReplyText ''I do not understand. Use /help or /start.'' None]"
proof -
  let ?w0 = "world_of empty_store []"
  let ?we = "snd (utility_menu_handler demo_env (button_update 5 ''util_echo'') ?w0)"
  let ?wd = "snd (run_handler H_utility_menu_handler demo_env (button_update 5 ''util_dice'') ?we)"
  have q: "callback_query (button_update 5 ''util_echo'')
             = Some \<lparr>from_user = Some (demo_user 5), data = Some ''util_echo''\<rparr>
           \<and> data \<lparr>from_user = Some (demo_user 5), data = Some ''util_echo''\<rparr> = Some ''util_echo''"
    by (simp add: button_update_def)
  have ms: "\<forall>u \<in> set [text_update 5 ''ping'', text_update 5 ''pong'']. message u \<noteq> None"
    by (simp add: text_update_def)
  have one: "str_int 1 = ''1''"
    by code_simp
  have oe: "outbox ?we = [AnswerQuery, EditMessageText ''Send text and I will echo it.'' None]"
    by (simp add: utility_menu_handler_def button_update_def world_of_def Let_def)
  have od: "outbox ?wd = [AnswerQuery, EditMessageText ''Send text and I will echo it.'' None,
                         AnswerQuery, EditMessageText ''Dice rolled: 1'' None]"
    by (simp add: utility_menu_handler_def button_update_def world_of_def Let_def demo_env_def one)
  have rs: "resets_utility_mode H_utility_menu_handler (button_update 5 ''util_dice'')"
    by (simp add: resets_utility_mode_def button_update_def)
  have mping: "message (text_update 5 ''ping'') = Some \<lparr>msg_text = ''ping''\<rparr>"
    by (simp add: text_update_def)
  note sel = echo_stays_until_reset [where e = demo_env and w = ?w0
      and upd = "button_update 5 ''util_echo''", THEN conjunct1, THEN mp, OF q]
  note mode = sel [THEN conjunct2]
  note run = echo_stays_until_reset [where e = demo_env and w = ?we
      and upds = "[text_update 5 ''ping'', text_update 5 ''pong'']",
      THEN conjunct2, THEN conjunct2, THEN conjunct2, THEN conjunct2, THEN mp,
      OF conjI [OF mode ms]]
  note reset = echo_stays_until_reset [where e = demo_env and w = ?we
      and h = H_utility_menu_handler and upd = "button_update 5 ''util_dice''",
      THEN conjunct2, THEN conjunct2, THEN conjunct1, THEN mp, OF mode]
  note reply = echo_stays_until_reset [where e = demo_env and w = ?wd
      and upd = "text_update 5 ''ping''",
      THEN conjunct2, THEN conjunct1, THEN mp, OF mping]
  have a: "outbox (run_texts demo_env [text_update 5 ''ping'', text_update 5 ''pong''] ?we)
           = [AnswerQuery, EditMessageText ''Send text and I will echo it.'' None,
              ReplyText ''ping'' None, ReplyText ''pong'' None]"
    unfolding run using oe by (simp add: text_update_def)
  have b: "get_user_data ?wd ''utility_mode'' = None"
    using reset rs by simp
  have c: "outbox (snd (utility_text_handler demo_env (text_update 5 ''ping'') ?wd))
           = [AnswerQuery, EditMessageText ''Send text and I will echo it.'' None,
              AnswerQuery, EditMessageText ''Dice rolled: 1'' None,
              ReplyText ''I do not understand. Use /help or /start.'' None]"
    unfolding reply using b od by simp
  from mode a b c show ?thesis
    by (intro conjI)
qed

end
